theory Spec2Isabelle
  imports Complex_Main
begin

section \<open>The distributed training coordinator of apps/tts/train.py\<close>

text \<open>
  The embedding follows \<^verbatim>\<open>src/apps/tts/train.py\<close>. It keeps the control plane of the
  trainer: the configuration, the counters of \<^verbatim>\<open>TrainerState\<close>, the objects returned by
  \<^verbatim>\<open>_create_optimizer\<close> and \<^verbatim>\<open>_create_scheduler\<close>, and the trace of the external effects
  a rank performs (collective reductions, optimizer and scheduler steps, checkpoint
  writes). The tensors, the model parameters and the snapshots of model and optimizer
  are opaque to the coordinator and are left out.

  Calls into torch on genuine objects (forward and backward passes, \<^verbatim>\<open>step\<close>,
  \<^verbatim>\<open>zero_grad\<close>, \<^verbatim>\<open>state_dict\<close>, \<^verbatim>\<open>torch.save\<close>, the collectives) are taken to return
  normally; the checks that the constructor of torch's \<^verbatim>\<open>OneCycleLR\<close> makes on its
  arguments are written out. A loss is a float that is finite, infinite or NaN; on
  finite values the arithmetic is that of the reals, so rounding and overflow are not
  represented.
\<close>

subsection \<open>Python values\<close>

datatype py_error =
    ZeroDivisionError
  | AttributeError string
  | FileNotFoundError string
  | TypeError string
  | ValueError string

text \<open>Python's \<^verbatim>\<open>%\<close> and \<^verbatim>\<open>//\<close> on integers: floored, and raising on a zero divisor.\<close>

definition py_mod :: "int \<Rightarrow> int \<Rightarrow> py_error + int" where
  "py_mod a b = (if b = 0 then Inl ZeroDivisionError else Inr (a mod b))"

definition py_floordiv :: "int \<Rightarrow> int \<Rightarrow> py_error + int" where
  "py_floordiv a b = (if b = 0 then Inl ZeroDivisionError else Inr (a div b))"

text \<open>\<^verbatim>\<open>range(a, b)\<close>: the integers from \<open>a\<close> up to, not including, \<open>b\<close>.\<close>

definition py_range :: "int \<Rightarrow> int \<Rightarrow> int list" where
  "py_range a b = map (\<lambda>k. a + int k) [0..<nat (b - a)]"

text \<open>
  A Python float: finite, \<^verbatim>\<open>inf\<close>, \<^verbatim>\<open>-inf\<close> or NaN. Addition, with \<open>0.0\<close> as zero,
  follows IEEE 754 on the special values: NaN absorbs everything, and the two infinities
  add up to NaN.
\<close>

datatype pyfloat = Finite real | PosInf | NegInf | NaN

instantiation pyfloat :: comm_monoid_add
begin

definition zero_pyfloat :: pyfloat where
  "zero_pyfloat = Finite 0"

fun plus_pyfloat :: "pyfloat \<Rightarrow> pyfloat \<Rightarrow> pyfloat" where
  "plus_pyfloat NaN y = NaN"
| "plus_pyfloat x NaN = NaN"
| "plus_pyfloat PosInf NegInf = NaN"
| "plus_pyfloat NegInf PosInf = NaN"
| "plus_pyfloat PosInf y = PosInf"
| "plus_pyfloat x PosInf = PosInf"
| "plus_pyfloat NegInf y = NegInf"
| "plus_pyfloat x NegInf = NegInf"
| "plus_pyfloat (Finite x) (Finite y) = Finite (x + y)"

instance
proof (standard, goal_cases)
  case (1 x y z)
  show ?case by (cases x; cases y; cases z) simp_all
next
  case (2 x y)
  show ?case by (cases x; cases y) simp_all
next
  case (3 x)
  show ?case by (cases x) (simp_all add: zero_pyfloat_def)
qed

end

text \<open>
  A float divided by an integer. Every division of the source has a divisor of at least
  1 (the world size, the number of batches of a non-empty loader, the number of
  micro-batches accumulated at a boundary times the world size).
\<close>

fun float_div :: "pyfloat \<Rightarrow> int \<Rightarrow> pyfloat" where
  "float_div (Finite x) n = Finite (x / real_of_int n)"
| "float_div PosInf n = (if 0 \<le> n then PosInf else NegInf)"
| "float_div NegInf n = (if 0 \<le> n then NegInf else PosInf)"
| "float_div NaN n = NaN"

text \<open>The comparison \<^verbatim>\<open><\<close> of two floats: false whenever one of them is NaN.\<close>

fun float_less :: "pyfloat \<Rightarrow> pyfloat \<Rightarrow> bool" where
  "float_less NaN y = False"
| "float_less x NaN = False"
| "float_less x NegInf = False"
| "float_less NegInf y = True"
| "float_less PosInf y = False"
| "float_less (Finite x) PosInf = True"
| "float_less (Finite x) (Finite y) = (x < y)"

text \<open>A float has not increased: it is what it was, or strictly less.\<close>

definition float_le :: "pyfloat \<Rightarrow> pyfloat \<Rightarrow> bool" where
  "float_le x y = (x = y \<or> float_less x y)"

text \<open>The format specification \<^verbatim>\<open>:04d\<close>: decimal, sign-aware zero padding to width 4.\<close>

fun decimal :: "nat \<Rightarrow> string" where
  "decimal n = (if n < 10 then [''0123456789'' ! n]
                else decimal (n div 10) @ [''0123456789'' ! (n mod 10)])"

declare decimal.simps [simp del]

definition zfill :: "nat \<Rightarrow> string \<Rightarrow> string" where
  "zfill w s = replicate (w - length s) (CHR ''0'') @ s"

definition format_04d :: "int \<Rightarrow> string" where
  "format_04d n = (if n < 0 then ''-'' @ zfill 3 (decimal (nat (- n)))
                   else zfill 4 (decimal (nat n)))"

subsection \<open>Data model\<close>

text \<open>
  \<^verbatim>\<open>TrainingConfig\<close>, with the fields the coordinator reads. The method
  \<^verbatim>\<open>post_init__\<close> of the source is not the dataclass hook \<^verbatim>\<open>__post_init__\<close> and is
  never called, so constructing a configuration has no effect and checks nothing.
\<close>

record TrainingConfig =
  epochs :: int
  batch_size :: int
  grad_accum_steps :: int
  optimizer :: string
  lr_scheduler :: string
  checkpoint_dir :: string
  checkpoint_freq :: int
  validation_freq :: int
  resume_checkpoint :: "string option"

definition default_config :: TrainingConfig where
  "default_config =
     \<lparr>epochs = 100, batch_size = 8, grad_accum_steps = 1, optimizer = ''AdamW'',
      lr_scheduler = ''OneCycleLR'', checkpoint_dir = ''checkpoints'',
      checkpoint_freq = 1, validation_freq = 1, resume_checkpoint = None\<rparr>"

record TrainerState =
  epoch :: int
  global_step :: int
  best_loss :: pyfloat

definition initial_state :: TrainerState where
  "initial_state = \<lparr>epoch = 0, global_step = 0, best_loss = PosInf\<rparr>"

text \<open>
  \<^verbatim>\<open>CheckpointState\<close>: the schedule snapshot is optional; the trainer state and the
  configuration are stored as they are.
\<close>

record CheckpointState =
  scheduler_state :: "string option"
  trainer_state :: TrainerState
  saved_config :: TrainingConfig

text \<open>
  What \<^verbatim>\<open>_create_optimizer\<close> and \<^verbatim>\<open>_create_scheduler\<close> return: a genuine object, or an
  instance of \<^verbatim>\<open>NotImplementedError\<close> handed back as an ordinary value.
\<close>

datatype Optimizer = AdamW | Optimizer_NotImplementedError string

datatype Scheduler = OneCycleLR int | Scheduler_NotImplementedError string

text \<open>The external effects of one rank, in the order they happen.\<close>

datatype event =
    AllReduce pyfloat
  | LogTrainLoss int int pyfloat
  | LogValidationLoss pyfloat
  | OptimizerStep int
  | SchedulerStep int
  | CheckpointSaved string TrainerState

text \<open>
  A data loader gives, for the value of \<^verbatim>\<open>state.epoch\<close> at which it is iterated, the
  sequence of its micro-batches; a micro-batch is represented by the loss the model
  computes for it on every rank (position \<open>r\<close> holds the loss of rank \<open>r\<close>), which is
  what the collective sum ranges over.
\<close>

type_synonym batch = "pyfloat list"

type_synonym DataLoader = "int \<Rightarrow> batch list"

text \<open>
  The trainer. \<open>self_optimizer\<close> and \<open>self_scheduler\<close> are \<^verbatim>\<open>self.optimizer\<close> and
  \<^verbatim>\<open>self.scheduler\<close>; \<open>world_size\<close> is what \<^verbatim>\<open>dist.get_world_size()\<close> returns;
  \<open>events\<close> is not a field of the class: it records the effects performed so far.
\<close>

record DistributedTTSTrainer =
  config :: TrainingConfig
  world_size :: nat
  is_main :: bool
  self_optimizer :: Optimizer
  self_scheduler :: Scheduler
  train_loader :: DataLoader
  val_loader :: DataLoader
  state :: TrainerState
  events :: "event list"

definition emit :: "event \<Rightarrow> DistributedTTSTrainer \<Rightarrow> DistributedTTSTrainer" where
  "emit ev t = t\<lparr>events := events t @ [ev]\<rparr>"

text \<open>
  The process environment of one rank: its identity, its data, the files it can read,
  and the object list the coordinating rank contributes to a broadcast.
\<close>

record ProcessEnv =
  env_rank :: nat
  env_world_size :: nat
  env_train_loader :: DataLoader
  env_val_loader :: DataLoader
  env_files :: "string \<Rightarrow> CheckpointState option"
  env_src_objects :: "int list"

subsection \<open>Attribute access on the optimizer and the scheduler\<close>

text \<open>
  A method call on a \<^verbatim>\<open>NotImplementedError\<close> instance raises \<^verbatim>\<open>AttributeError\<close>; the
  argument names the missing attribute.
\<close>

definition optimizer_call :: "Optimizer \<Rightarrow> string \<Rightarrow> py_error + unit" where
  "optimizer_call opt attr =
     (case opt of AdamW \<Rightarrow> Inr () | Optimizer_NotImplementedError _ \<Rightarrow> Inl (AttributeError attr))"

definition scheduler_call :: "Scheduler \<Rightarrow> string \<Rightarrow> py_error + unit" where
  "scheduler_call sch attr =
     (case sch of OneCycleLR _ \<Rightarrow> Inr () | Scheduler_NotImplementedError _ \<Rightarrow> Inl (AttributeError attr))"

subsection \<open>Construction\<close>

definition create_optimizer :: "TrainingConfig \<Rightarrow> Optimizer" where
  "create_optimizer c =
     (if optimizer c = ''AdamW'' then AdamW
      else Optimizer_NotImplementedError (''Optimizer: '' @ optimizer c @ '' not implemented!''))"

text \<open>
  The constructor of \<^verbatim>\<open>torch.optim.lr_scheduler.OneCycleLR\<close>, which is library code: it
  raises \<^verbatim>\<open>TypeError\<close> when its first argument is not an optimizer and \<^verbatim>\<open>ValueError\<close>
  when \<^verbatim>\<open>total_steps\<close> is not positive.
\<close>

definition OneCycleLR_init :: "Optimizer \<Rightarrow> int \<Rightarrow> py_error + Scheduler" where
  "OneCycleLR_init opt total_steps =
     (case opt of
        Optimizer_NotImplementedError _ \<Rightarrow> Inl (TypeError ''NotImplementedError is not an Optimizer'')
      | AdamW \<Rightarrow>
         (if total_steps \<le> 0 then Inl (ValueError ''Expected positive integer total_steps'')
          else Inr (OneCycleLR total_steps)))"

text \<open>
  \<^verbatim>\<open>_create_scheduler\<close>. \<^verbatim>\<open>len(self.train_loader)\<close> is the number of micro-batches of a
  pass; the arguments of the constructor are evaluated before it is called.
\<close>

definition create_scheduler ::
  "TrainingConfig \<Rightarrow> Optimizer \<Rightarrow> DataLoader \<Rightarrow> py_error + Scheduler" where
  "create_scheduler c opt loader =
     (if lr_scheduler c = ''OneCycleLR'' then
        (case py_floordiv (int (length (loader 0))) (grad_accum_steps c) of
           Inl e \<Rightarrow> Inl e
         | Inr q \<Rightarrow> OneCycleLR_init opt (epochs c * q))
      else Inr (Scheduler_NotImplementedError
                  (''lr_scheduler:'' @ lr_scheduler c @ '' not implemented!'')))"

definition CheckpointState_load ::
  "(string \<Rightarrow> CheckpointState option) \<Rightarrow> string \<Rightarrow> py_error + CheckpointState" where
  "CheckpointState_load files path =
     (case files path of None \<Rightarrow> Inl (FileNotFoundError path) | Some c \<Rightarrow> Inr c)"

text \<open>
  \<^verbatim>\<open>dist.broadcast_object_list(object_list, src)\<close>: on every rank but \<open>src\<close> the entries
  of the list passed in are replaced by those of rank \<open>src\<close>.
\<close>

definition broadcast_object_list :: "nat \<Rightarrow> nat \<Rightarrow> int list \<Rightarrow> int list \<Rightarrow> int list" where
  "broadcast_object_list rank src object_list src_objects =
     (if rank = src then object_list else src_objects)"

text \<open>
  \<^verbatim>\<open>load_checkpoint\<close>. The list given to the broadcast is built at the call and bound to
  no name, so what the broadcast stores in it is not read afterwards; the model returns
  it next to the trainer to keep it visible.
\<close>

definition load_checkpoint ::
  "DistributedTTSTrainer \<Rightarrow> ProcessEnv \<Rightarrow> string \<Rightarrow> py_error + (DistributedTTSTrainer \<times> int list)" where
  "load_checkpoint t env path =
     (case CheckpointState_load (env_files env) path of
        Inl e \<Rightarrow> Inl e
      | Inr checkpoint \<Rightarrow>
         (case optimizer_call (self_optimizer t) ''load_state_dict'' of
            Inl e \<Rightarrow> Inl e
          | Inr _ \<Rightarrow>
             (case (if scheduler_state checkpoint \<noteq> None
                    then scheduler_call (self_scheduler t) ''load_state_dict'' else Inr ()) of
                Inl e \<Rightarrow> Inl e
              | Inr _ \<Rightarrow>
                 (let t1 = t\<lparr>state := trainer_state checkpoint\<rparr>;
                      object_list = broadcast_object_list (env_rank env) 0
                                      [epoch (state t1), global_step (state t1)]
                                      (env_src_objects env)
                  in Inr (t1, object_list)))))"

definition init :: "TrainingConfig \<Rightarrow> ProcessEnv \<Rightarrow> py_error + DistributedTTSTrainer" where
  "init c env =
     (let opt = create_optimizer c in
      case create_scheduler c opt (env_train_loader env) of
        Inl e \<Rightarrow> Inl e
      | Inr sch \<Rightarrow>
         (let t = \<lparr>config = c, world_size = env_world_size env, is_main = (env_rank env = 0),
                   self_optimizer = opt, self_scheduler = sch,
                   train_loader = env_train_loader env, val_loader = env_val_loader env,
                   state = initial_state, events = []\<rparr>
          in case resume_checkpoint c of
               None \<Rightarrow> Inr t
             | Some path \<Rightarrow>
                (case load_checkpoint t env path of
                   Inl e \<Rightarrow> Inl e
                 | Inr (t1, _) \<Rightarrow> Inr t1)))"

subsection \<open>Checkpoint writes\<close>

definition checkpoint_filename :: "TrainerState \<Rightarrow> bool \<Rightarrow> string" where
  "checkpoint_filename s best =
     (if \<not> best then ''checkpoint_'' @ format_04d (epoch s) @ ''.pt'' else ''best.pt'')"

definition save_checkpoint :: "DistributedTTSTrainer \<Rightarrow> bool \<Rightarrow> py_error + DistributedTTSTrainer" where
  "save_checkpoint t best =
     (if \<not> is_main t then Inr t
      else
        (case optimizer_call (self_optimizer t) ''state_dict'' of
           Inl e \<Rightarrow> Inl e
         | Inr _ \<Rightarrow>
            (case scheduler_call (self_scheduler t) ''state_dict'' of
               Inl e \<Rightarrow> Inl e
             | Inr _ \<Rightarrow>
                (let filename = checkpoint_filename (state t) best;
                     path = checkpoint_dir (config t) @ ''/'' @ filename
                 in Inr (emit (CheckpointSaved path (state t)) t)))))"

subsection \<open>One training epoch\<close>

text \<open>
  The body of \<^verbatim>\<open>if (batch_idx + 1) % grad_accum_steps == 0\<close>: reduce and log the running
  loss, then step the optimizer and the scheduler and count the step.
\<close>

definition accumulation_boundary ::
  "DistributedTTSTrainer \<Rightarrow> int \<Rightarrow> pyfloat list \<Rightarrow> int \<Rightarrow> py_error + DistributedTTSTrainer" where
  "accumulation_boundary t batch_idx total_loss accum_steps =
     (let total_loss_tensor = sum_list total_loss;
          t1 = emit (AllReduce total_loss_tensor) t;
          t2 = (if is_main t1
                then emit (LogTrainLoss (epoch (state t1)) (global_step (state t1))
                             (float_div total_loss_tensor (accum_steps * int (world_size t1)))) t1
                else t1)
      in case optimizer_call (self_optimizer t2) ''step'' of
           Inl e \<Rightarrow> Inl e
         | Inr _ \<Rightarrow>
            (let t3 = emit (OptimizerStep batch_idx) t2 in
             case scheduler_call (self_scheduler t3) ''step'' of
               Inl e \<Rightarrow> Inl e
             | Inr _ \<Rightarrow>
                (let t4 = emit (SchedulerStep batch_idx) t3
                 in Inr (t4\<lparr>state := (state t4)\<lparr>global_step := global_step (state t4) + 1\<rparr>\<rparr>))))"

text \<open>
  The loop \<^verbatim>\<open>for batch_idx, batch in enumerate(self.train_loader)\<close>. The running loss
  is kept for every rank, since the reduction at a boundary sums the running losses of
  all ranks.
\<close>

fun train_batches ::
  "DistributedTTSTrainer \<Rightarrow> int \<Rightarrow> pyfloat list \<Rightarrow> int \<Rightarrow> batch list \<Rightarrow> py_error + DistributedTTSTrainer" where
  "train_batches t batch_idx total_loss accum_steps [] = Inr t"
| "train_batches t batch_idx total_loss accum_steps (b # rest) =
     (case py_mod (batch_idx + 1) (grad_accum_steps (config t)) of
        Inl e \<Rightarrow> Inl e
      | Inr r \<Rightarrow>
         (if r = 0 then
            (case accumulation_boundary t batch_idx (map2 (+) total_loss b) (accum_steps + 1) of
               Inl e \<Rightarrow> Inl e
             | Inr t' \<Rightarrow> train_batches t' (batch_idx + 1) (replicate (world_size t') 0) 0 rest)
          else train_batches t (batch_idx + 1) (map2 (+) total_loss b) (accum_steps + 1) rest))"

definition train_epoch :: "DistributedTTSTrainer \<Rightarrow> py_error + DistributedTTSTrainer" where
  "train_epoch t =
     (case train_batches t 0 (replicate (world_size t) 0) 0 (train_loader t (epoch (state t))) of
        Inl e \<Rightarrow> Inl e
      | Inr t' \<Rightarrow> Inr (t'\<lparr>state := (state t')\<lparr>epoch := epoch (state t') + 1\<rparr>\<rparr>))"

subsection \<open>Validation\<close>

text \<open>
  The loop of \<^verbatim>\<open>validate\<close>: every batch is reduced over the ranks, divided by the world
  size and added to the total.
\<close>

fun validate_batches ::
  "DistributedTTSTrainer \<Rightarrow> pyfloat \<Rightarrow> batch list \<Rightarrow> DistributedTTSTrainer \<times> pyfloat" where
  "validate_batches t total_loss [] = (t, total_loss)"
| "validate_batches t total_loss (b # rest) =
     (let loss_tensor = sum_list b
      in validate_batches (emit (AllReduce loss_tensor) t)
           (total_loss + float_div loss_tensor (int (world_size t))) rest)"

definition validate :: "DistributedTTSTrainer \<Rightarrow> py_error + DistributedTTSTrainer" where
  "validate t =
     (let batches = val_loader t (epoch (state t)) in
      if batches = [] then Inr t
      else
        (case validate_batches t 0 batches of
           (t1, total_loss) \<Rightarrow>
             (let avg_loss = float_div total_loss (int (length batches)) in
              if is_main t1 then
                (let t2 = emit (LogValidationLoss avg_loss) t1 in
                 if float_less avg_loss (best_loss (state t2))
                 then save_checkpoint (t2\<lparr>state := (state t2)\<lparr>best_loss := avg_loss\<rparr>\<rparr>) True
                 else Inr t2)
              else Inr t1)))"

subsection \<open>The run\<close>

text \<open>
  The loop \<^verbatim>\<open>for epoch in range(start_epoch, config.epochs)\<close> of \<^verbatim>\<open>train\<close>; its body
  is \<open>train_iteration\<close>.
\<close>

definition train_iteration ::
  "TrainingConfig \<Rightarrow> DistributedTTSTrainer \<Rightarrow> int \<Rightarrow> py_error + DistributedTTSTrainer" where
  "train_iteration c t e =
     (case train_epoch t of
        Inl err \<Rightarrow> Inl err
      | Inr t1 \<Rightarrow>
         (case py_mod (e + 1) (validation_freq c) of
            Inl err \<Rightarrow> Inl err
          | Inr rv \<Rightarrow>
             (case (if rv = 0 then validate t1 else Inr t1) of
                Inl err \<Rightarrow> Inl err
              | Inr t2 \<Rightarrow>
                 (case py_mod (e + 1) (checkpoint_freq c) of
                    Inl err \<Rightarrow> Inl err
                  | Inr rc \<Rightarrow> (if rc = 0 then save_checkpoint t2 False else Inr t2)))))"

fun train_loop ::
  "TrainingConfig \<Rightarrow> DistributedTTSTrainer \<Rightarrow> int list \<Rightarrow> py_error + DistributedTTSTrainer" where
  "train_loop c t [] = Inr t"
| "train_loop c t (e # rest) =
     (case train_iteration c t e of
        Inl err \<Rightarrow> Inl err
      | Inr t3 \<Rightarrow> train_loop c t3 rest)"

definition train :: "TrainingConfig \<Rightarrow> ProcessEnv \<Rightarrow> py_error + DistributedTTSTrainer" where
  "train c env =
     (case init c env of
        Inl e \<Rightarrow> Inl e
      | Inr trainer \<Rightarrow>
         (let start_epoch = epoch (state trainer)
          in train_loop c trainer (py_range start_epoch (epochs c))))"

subsection \<open>Reading the trace\<close>

text \<open>The batch indices at which the scheduler ticked, in order.\<close>

fun scheduler_steps :: "event list \<Rightarrow> int list" where
  "scheduler_steps [] = []"
| "scheduler_steps (SchedulerStep i # evs) = i # scheduler_steps evs"
| "scheduler_steps (_ # evs) = scheduler_steps evs"

text \<open>The batch indices at which the optimizer stepped, in order.\<close>

fun optimizer_steps :: "event list \<Rightarrow> int list" where
  "optimizer_steps [] = []"
| "optimizer_steps (OptimizerStep i # evs) = i # optimizer_steps evs"
| "optimizer_steps (_ # evs) = optimizer_steps evs"

text \<open>The paths of the checkpoint files written, in order.\<close>

fun saved_paths :: "event list \<Rightarrow> string list" where
  "saved_paths [] = []"
| "saved_paths (CheckpointSaved p s # evs) = p # saved_paths evs"
| "saved_paths (_ # evs) = saved_paths evs"

text \<open>The mean validation losses logged, in order.\<close>

fun logged_validation :: "event list \<Rightarrow> pyfloat list" where
  "logged_validation [] = []"
| "logged_validation (LogValidationLoss x # evs) = x # logged_validation evs"
| "logged_validation (_ # evs) = logged_validation evs"

text \<open>The path of the checkpoint kept under the tag "best", and of a periodic one.\<close>

definition best_path :: "TrainingConfig \<Rightarrow> string" where
  "best_path c = checkpoint_dir c @ ''/best.pt''"

definition periodic_path :: "TrainingConfig \<Rightarrow> int \<Rightarrow> string" where
  "periodic_path c e = checkpoint_dir c @ ''/checkpoint_'' @ format_04d e @ ''.pt''"

text \<open>Both the optimizer and the scheduler are genuine objects.\<close>

definition genuine :: "DistributedTTSTrainer \<Rightarrow> bool" where
  "genuine t =
     (self_optimizer t = AdamW \<and>
      (case self_scheduler t of OneCycleLR _ \<Rightarrow> True | Scheduler_NotImplementedError _ \<Rightarrow> False))"

text \<open>Two trainers differ at most in their state and their trace.\<close>

definition same_setup :: "DistributedTTSTrainer \<Rightarrow> DistributedTTSTrainer \<Rightarrow> bool" where
  "same_setup t t' =
     (config t' = config t \<and> world_size t' = world_size t \<and> is_main t' = is_main t \<and>
      self_optimizer t' = self_optimizer t \<and> self_scheduler t' = self_scheduler t \<and>
      train_loader t' = train_loader t \<and> val_loader t' = val_loader t)"

text \<open>The values \<^verbatim>\<open>batch_idx\<close> takes over \<open>n\<close> micro-batches when counting from \<open>i\<close>.\<close>

definition indices :: "int \<Rightarrow> nat \<Rightarrow> int list" where
  "indices i n = map (\<lambda>j. i + int j) [0..<n]"

subsection \<open>The specification's mean validation loss\<close>

text \<open>
  Written from the words of the specification, not from the code: the sum over the
  validation batches of the collective sum of the batch's per-rank losses divided by the
  world size, divided by the number of batches.
\<close>

definition spec_mean_validation_loss :: "nat \<Rightarrow> batch list \<Rightarrow> pyfloat" where
  "spec_mean_validation_loss ws bs =
     float_div (\<Sum>b\<leftarrow>bs. float_div (sum_list b) (int ws)) (int (length bs))"

subsection \<open>Concrete trainers\<close>

text \<open>
  A trainer of a two-rank run in its initial state, with a genuine optimizer and a
  genuine scheduler holding the step count that \<^verbatim>\<open>_create_scheduler\<close> computes: rank
  \<open>r\<close>, the same training and validation batches at every epoch. Where that step count
  is positive it is the trainer that \<^verbatim>\<open>__init__\<close> returns for a supported configuration
  without a resume source.
\<close>

definition example_trainer ::
  "TrainingConfig \<Rightarrow> nat \<Rightarrow> batch list \<Rightarrow> batch list \<Rightarrow> DistributedTTSTrainer" where
  "example_trainer c r tr va =
     \<lparr>config = c, world_size = 2, is_main = (r = 0),
      self_optimizer = AdamW,
      self_scheduler = OneCycleLR (epochs c * (int (length tr) div grad_accum_steps c)),
      train_loader = (\<lambda>_. tr), val_loader = (\<lambda>_. va),
      state = initial_state, events = []\<rparr>"

text \<open>Four micro-batches of training data on two ranks.\<close>

definition scenario_train :: "batch list" where
  "scenario_train =
     [[Finite 1, Finite 2], [Finite 3, Finite 4], [Finite 5, Finite 6], [Finite 7, Finite 8]]"

text \<open>One validation batch on two ranks, with the losses 0.4 and 0.6.\<close>

definition scenario_val :: "batch list" where
  "scenario_val = [[Finite (2/5), Finite (3/5)]]"

text \<open>
  The environment of rank \<open>r\<close> of a two-rank run with the given training and
  validation batches, without checkpoint files.
\<close>

definition example_env :: "nat \<Rightarrow> batch list \<Rightarrow> batch list \<Rightarrow> ProcessEnv" where
  "example_env r tr va =
     \<lparr>env_rank = r, env_world_size = 2, env_train_loader = (\<lambda>_. tr), env_val_loader = (\<lambda>_. va),
      env_files = (\<lambda>_. None), env_src_objects = []\<rparr>"

text \<open>
  The same environment where the file \<^verbatim>\<open>resume.pt\<close> holds a bundle with trainer state
  \<open>s\<close>, and the coordinating rank contributes \<open>objs\<close> to the broadcast.
\<close>

definition resume_env :: "nat \<Rightarrow> TrainerState \<Rightarrow> int list \<Rightarrow> ProcessEnv" where
  "resume_env r s objs =
     (example_env r scenario_train scenario_val)
       \<lparr>env_files := (\<lambda>_. None)(''resume.pt'' :=
            Some \<lparr>scheduler_state = Some ''schedule'', trainer_state = s, saved_config = default_config\<rparr>),
        env_src_objects := objs\<rparr>"

text \<open>One validation batch on two ranks where the loss of rank 0 is infinite.\<close>

definition scenario_val_inf :: "batch list" where
  "scenario_val_inf = [[PosInf, Finite (3/5)]]"

text \<open>A float is finite.\<close>

fun is_finite :: "pyfloat \<Rightarrow> bool" where
  "is_finite (Finite x) = True"
| "is_finite x = False"

section \<open>Auxiliary facts\<close>

lemma optimizer_steps_append: "optimizer_steps (xs @ ys) = optimizer_steps xs @ optimizer_steps ys"
  by (induction xs rule: optimizer_steps.induct) simp_all
lemma scheduler_steps_append: "scheduler_steps (xs @ ys) = scheduler_steps xs @ scheduler_steps ys"
  by (induction xs rule: scheduler_steps.induct) simp_all
lemma saved_paths_append: "saved_paths (xs @ ys) = saved_paths xs @ saved_paths ys"
  by (induction xs rule: saved_paths.induct) simp_all
lemma logged_validation_append: "logged_validation (xs @ ys) = logged_validation xs @ logged_validation ys"
  by (induction xs rule: logged_validation.induct) simp_all

lemmas trace_append =
  optimizer_steps_append scheduler_steps_append saved_paths_append logged_validation_append

lemma same_setup_refl: "same_setup t t" by (simp add: same_setup_def)
lemma same_setup_trans: "same_setup a b \<Longrightarrow> same_setup b c \<Longrightarrow> same_setup a c" by (simp add: same_setup_def)
lemma same_setup_genuine: "same_setup t t' \<Longrightarrow> genuine t' = genuine t" by (simp add: same_setup_def genuine_def)

lemma accumulation_boundary_Inr:
  assumes "accumulation_boundary t i tot ac = Inr t'"
  shows "same_setup t t'"
    and "state t' = (state t)\<lparr>global_step := global_step (state t) + 1\<rparr>"
    and "optimizer_steps (events t') = optimizer_steps (events t) @ [i]"
    and "saved_paths (events t') = saved_paths (events t)"
    and "logged_validation (events t') = logged_validation (events t)"
    and "scheduler_steps (events t') = scheduler_steps (events t) @ [i]"
  using assms
  by (auto simp: same_setup_def accumulation_boundary_def Let_def emit_def trace_append
           split: sum.splits if_splits)

lemma accumulation_boundary_total:
  assumes "genuine t"
  shows "\<exists>t'. accumulation_boundary t i tot ac = Inr t'"
  using assms
  by (auto simp: genuine_def accumulation_boundary_def Let_def emit_def optimizer_call_def scheduler_call_def
           split: Scheduler.splits)

lemma indices_0: "indices i 0 = []" by (simp add: indices_def)
lemma indices_Suc: "indices i (Suc n) = i # indices (i + 1) n"
proof -
  have "[0..<Suc n] = 0 # map Suc [0..<n]" by (simp add: upt_conv_Cons map_Suc_upt del: upt_Suc)
  then show ?thesis by (simp add: indices_def comp_def del: upt_Suc)
qed

lemma train_batches_Inr:
  assumes "train_batches t i tot ac bs = Inr t'"
  shows "same_setup t t' \<and>
         epoch (state t') = epoch (state t) \<and> best_loss (state t') = best_loss (state t) \<and>
         optimizer_steps (events t') =
           optimizer_steps (events t) @
           filter (\<lambda>k. (k + 1) mod grad_accum_steps (config t) = 0) (indices i (length bs)) \<and>
         global_step (state t') = global_step (state t) +
           int (length (filter (\<lambda>k. (k + 1) mod grad_accum_steps (config t) = 0) (indices i (length bs)))) \<and>
         saved_paths (events t') = saved_paths (events t) \<and>
         logged_validation (events t') = logged_validation (events t) \<and>
         scheduler_steps (events t') =
           scheduler_steps (events t) @
           filter (\<lambda>k. (k + 1) mod grad_accum_steps (config t) = 0) (indices i (length bs))"
  using assms
proof (induction bs arbitrary: t i tot ac)
  case Nil
  then show ?case by (simp add: same_setup_refl indices_0)
next
  case (Cons b bs)
  let ?W = "grad_accum_steps (config t)"
  from Cons.prems have W: "?W \<noteq> 0" by (auto simp: py_mod_def split: if_splits)
  show ?case
  proof (cases "(i + 1) mod ?W = 0")
    case True
    with Cons.prems W obtain t1 where
      b: "accumulation_boundary t i (map2 (+) tot b) (ac + 1) = Inr t1"
      and r: "train_batches t1 (i + 1) (replicate (world_size t1) 0) 0 bs = Inr t'"
      by (auto simp: py_mod_def split: sum.splits)
    note B = accumulation_boundary_Inr [OF b]
    note IH = Cons.IH [OF r]
    from B(1) have c: "config t1 = config t" by (simp add: same_setup_def)
    show ?thesis using True B IH same_setup_trans [OF B(1)]
      by (simp add: indices_Suc c)
  next
    case False
    with Cons.prems W have r: "train_batches t (i + 1) (map2 (+) tot b) (ac + 1) bs = Inr t'"
      by (auto simp: py_mod_def split: sum.splits)
    show ?thesis using False Cons.IH [OF r] by (simp add: indices_Suc)
  qed
qed

lemma train_batches_total:
  assumes "genuine t" "grad_accum_steps (config t) \<noteq> 0"
  shows "\<exists>t'. train_batches t i tot ac bs = Inr t'"
  using assms
proof (induction bs arbitrary: t i tot ac)
  case Nil
  then show ?case by simp
next
  case (Cons b bs)
  let ?W = "grad_accum_steps (config t)"
  show ?case
  proof (cases "(i + 1) mod ?W = 0")
    case True
    from accumulation_boundary_total [OF Cons.prems(1)] obtain t1 where
      b: "accumulation_boundary t i (map2 (+) tot b) (ac + 1) = Inr t1" by blast
    from accumulation_boundary_Inr(1) [OF b] have s: "same_setup t t1" .
    then have "genuine t1" "grad_accum_steps (config t1) \<noteq> 0"
      using Cons.prems by (simp_all add: same_setup_genuine) (simp add: same_setup_def)
    from Cons.IH [OF this] show ?thesis using True b Cons.prems(2) by (simp add: py_mod_def)
  next
    case False
    from Cons.IH [OF Cons.prems] show ?thesis using False Cons.prems(2) by (simp add: py_mod_def)
  qed
qed

lemma train_epoch_Inr:
  assumes "train_epoch t = Inr t'"
  shows "same_setup t t' \<and>
         epoch (state t') = epoch (state t) + 1 \<and> best_loss (state t') = best_loss (state t) \<and>
         optimizer_steps (events t') =
           optimizer_steps (events t) @
           filter (\<lambda>k. (k + 1) mod grad_accum_steps (config t) = 0)
             (indices 0 (length (train_loader t (epoch (state t))))) \<and>
         global_step (state t') = global_step (state t) +
           int (length (filter (\<lambda>k. (k + 1) mod grad_accum_steps (config t) = 0)
             (indices 0 (length (train_loader t (epoch (state t))))))) \<and>
         saved_paths (events t') = saved_paths (events t) \<and>
         logged_validation (events t') = logged_validation (events t) \<and>
         scheduler_steps (events t') =
           scheduler_steps (events t) @
           filter (\<lambda>k. (k + 1) mod grad_accum_steps (config t) = 0)
             (indices 0 (length (train_loader t (epoch (state t)))))"
proof -
  from assms obtain t1 where
    r: "train_batches t 0 (replicate (world_size t) 0) 0 (train_loader t (epoch (state t))) = Inr t1"
    and t': "t' = t1\<lparr>state := (state t1)\<lparr>epoch := epoch (state t1) + 1\<rparr>\<rparr>"
    by (auto simp: train_epoch_def split: sum.splits)
  from train_batches_Inr [OF r] show ?thesis
    by (simp add: t' same_setup_def)
qed

lemma train_epoch_total:
  assumes "genuine t" "grad_accum_steps (config t) \<noteq> 0"
  shows "\<exists>t'. train_epoch t = Inr t'"
proof -
  from train_batches_total [OF assms] obtain t1 where
    "train_batches t 0 (replicate (world_size t) 0) 0 (train_loader t (epoch (state t))) = Inr t1"
    by blast
  then show ?thesis by (simp add: train_epoch_def)
qed

lemma save_checkpoint_Inr:
  assumes "save_checkpoint t best = Inr t'"
  shows "same_setup t t' \<and> state t' = state t \<and>
         optimizer_steps (events t') = optimizer_steps (events t) \<and>
         scheduler_steps (events t') = scheduler_steps (events t) \<and>
         logged_validation (events t') = logged_validation (events t) \<and>
         saved_paths (events t') = saved_paths (events t) @
           (if is_main t then [checkpoint_dir (config t) @ ''/'' @ checkpoint_filename (state t) best] else [])"
  using assms
  by (auto simp: save_checkpoint_def same_setup_def emit_def Let_def trace_append
           split: if_splits sum.splits)

lemma save_checkpoint_total:
  assumes "genuine t \<or> \<not> is_main t"
  shows "\<exists>t'. save_checkpoint t best = Inr t'"
  using assms
  by (auto simp: save_checkpoint_def genuine_def optimizer_call_def scheduler_call_def Let_def
           split: Scheduler.splits)

lemma validate_batches_frame:
  "validate_batches t tot bs = (t1, x) \<Longrightarrow>
     same_setup t t1 \<and> state t1 = state t \<and>
     optimizer_steps (events t1) = optimizer_steps (events t) \<and>
     scheduler_steps (events t1) = scheduler_steps (events t) \<and>
     saved_paths (events t1) = saved_paths (events t) \<and>
     logged_validation (events t1) = logged_validation (events t)"
proof (induction bs arbitrary: t tot)
  case Nil
  then show ?case by (simp add: same_setup_refl)
next
  case (Cons b bs)
  from Cons.prems have
    "validate_batches (emit (AllReduce (sum_list b)) t)
       (tot + float_div (sum_list b) (int (world_size t))) bs = (t1, x)"
    by (simp add: Let_def)
  from Cons.IH [OF this] show ?case
    by (simp add: emit_def same_setup_def trace_append)
qed

lemma validate_batches_total_loss:
  "snd (validate_batches t tot bs) =
     tot + (\<Sum>b\<leftarrow>bs. float_div (sum_list b) (int (world_size t)))"
proof (induction bs arbitrary: t tot)
  case Nil
  show ?case by simp
next
  case (Cons b bs)
  have "world_size (emit (AllReduce (sum_list b)) t) = world_size t" by (simp add: emit_def)
  then show ?case by (simp add: Let_def Cons.IH add.assoc)
qed

lemma validate_Inr:
  assumes "validate t = Inr t'"
  defines "bs \<equiv> val_loader t (epoch (state t))"
  defines "avg \<equiv> spec_mean_validation_loss (world_size t) bs"
  defines "better \<equiv> is_main t \<and> bs \<noteq> [] \<and> float_less avg (best_loss (state t))"
  shows "same_setup t t' \<and>
         epoch (state t') = epoch (state t) \<and>
         global_step (state t') = global_step (state t) \<and>
         optimizer_steps (events t') = optimizer_steps (events t) \<and>
         scheduler_steps (events t') = scheduler_steps (events t) \<and>
         best_loss (state t') = (if better then avg else best_loss (state t)) \<and>
         saved_paths (events t') = saved_paths (events t) @ (if better then [best_path (config t)] else []) \<and>
         logged_validation (events t') = logged_validation (events t) @
           (if is_main t \<and> bs \<noteq> [] then [avg] else [])"
proof (cases "bs = []")
  case True
  then have "t' = t" using assms(1) by (simp add: validate_def bs_def)
  then show ?thesis using True by (simp add: same_setup_refl better_def)
next
  case False
  obtain t1 x where vb: "validate_batches t 0 bs = (t1, x)" by (cases "validate_batches t 0 bs")
  have x: "x = (\<Sum>b\<leftarrow>bs. float_div (sum_list b) (int (world_size t)))"
    using validate_batches_total_loss [of t 0 bs] vb by simp
  have avg: "float_div x (int (length bs)) = avg"
    by (simp add: avg_def spec_mean_validation_loss_def x)
  note F = validate_batches_frame [OF vb]
  from F have m: "is_main t1 = is_main t" "config t1 = config t" by (simp_all add: same_setup_def)
  show ?thesis
  proof (cases "is_main t")
    case nm: False
    then have "t' = t1" using assms(1) False vb m by (simp add: validate_def bs_def [symmetric] Let_def)
    then show ?thesis using F nm by (simp add: better_def)
  next
    case mn: True
    let ?t2 = "emit (LogValidationLoss avg) t1"
    show ?thesis
    proof (cases "float_less avg (best_loss (state t))")
      case True
      then have s: "save_checkpoint (?t2\<lparr>state := (state ?t2)\<lparr>best_loss := avg\<rparr>\<rparr>) True = Inr t'"
        using assms(1) False vb m mn F avg
        by (simp add: validate_def bs_def [symmetric] Let_def emit_def)
      from save_checkpoint_Inr [OF s] show ?thesis using F mn True False m
        by (simp add: emit_def same_setup_def trace_append best_path_def checkpoint_filename_def better_def)
    next
      case nb: False
      then have "t' = ?t2"
        using assms(1) False vb m mn F avg
        by (simp add: validate_def bs_def [symmetric] Let_def emit_def)
      then show ?thesis using F mn nb False
        by (simp add: emit_def same_setup_def trace_append better_def)
    qed
  qed
qed

lemma validate_total:
  assumes "genuine t \<or> \<not> is_main t"
  shows "\<exists>t'. validate t = Inr t'"
proof -
  let ?bs = "val_loader t (epoch (state t))"
  obtain t1 x where vb: "validate_batches t 0 ?bs = (t1, x)" by (cases "validate_batches t 0 ?bs")
  from validate_batches_frame [OF vb] have s: "same_setup t t1" by simp
  let ?t2 = "emit (LogValidationLoss (float_div x (int (length ?bs)))) t1"
  let ?t3 = "?t2\<lparr>state := (state ?t2)\<lparr>best_loss := float_div x (int (length ?bs))\<rparr>\<rparr>"
  have "genuine ?t3 \<or> \<not> is_main ?t3"
    using assms s by (auto simp: genuine_def same_setup_def emit_def)
  from save_checkpoint_total [OF this, of True] obtain t4 where "save_checkpoint ?t3 True = Inr t4" by blast
  then show ?thesis using vb by (simp add: validate_def Let_def)
qed

lemma float_less_trans: "float_less x y \<Longrightarrow> float_less y z \<Longrightarrow> float_less x z"
  by (cases x; cases y; cases z) simp_all
lemma float_le_refl: "float_le x x" by (simp add: float_le_def)
lemma float_le_trans: "float_le x y \<Longrightarrow> float_le y z \<Longrightarrow> float_le x z"
  by (auto simp: float_le_def intro: float_less_trans)
lemma float_less_le: "float_less x y \<Longrightarrow> float_le x y"
  by (simp add: float_le_def)

lemma periodic_not_best: "periodic_path c e \<noteq> best_path c"
  by (simp add: periodic_path_def best_path_def)

lemma train_iteration_Inr:
  assumes "train_iteration c t e = Inr t'"
  defines "bs \<equiv> val_loader t (epoch (state t) + 1)"
  defines "avg \<equiv> spec_mean_validation_loss (world_size t) bs"
  defines "better \<equiv> (e + 1) mod validation_freq c = 0 \<and> is_main t \<and> bs \<noteq> [] \<and>
                     float_less avg (best_loss (state t))"
  shows "validation_freq c \<noteq> 0 \<and> checkpoint_freq c \<noteq> 0 \<and>
         same_setup t t' \<and>
         epoch (state t') = epoch (state t) + 1 \<and>
         global_step (state t') = global_step (state t) +
           int (length (filter (\<lambda>k. (k + 1) mod grad_accum_steps (config t) = 0)
             (indices 0 (length (train_loader t (epoch (state t))))))) \<and>
         best_loss (state t') = (if better then avg else best_loss (state t)) \<and>
         saved_paths (events t') = saved_paths (events t) @
           (if better then [best_path (config t)] else []) @
           (if (e + 1) mod checkpoint_freq c = 0 \<and> is_main t
            then [periodic_path (config t) (epoch (state t) + 1)] else []) \<and>
         optimizer_steps (events t') =
           optimizer_steps (events t) @
           filter (\<lambda>k. (k + 1) mod grad_accum_steps (config t) = 0)
             (indices 0 (length (train_loader t (epoch (state t))))) \<and>
         scheduler_steps (events t') =
           scheduler_steps (events t) @
           filter (\<lambda>k. (k + 1) mod grad_accum_steps (config t) = 0)
             (indices 0 (length (train_loader t (epoch (state t)))))"
proof -
  from assms(1) obtain t1 where e: "train_epoch t = Inr t1"
    by (auto simp: train_iteration_def split: sum.splits)
  from assms(1) e have vf: "validation_freq c \<noteq> 0"
    by (auto simp: train_iteration_def py_mod_def split: sum.splits if_splits)
  from assms(1) e vf obtain t2 where
    v: "(if (e + 1) mod validation_freq c = 0 then validate t1 else Inr t1) = Inr t2"
    by (auto simp: train_iteration_def py_mod_def split: sum.splits if_splits)
  from assms(1) e vf v have cf: "checkpoint_freq c \<noteq> 0"
    by (auto simp: train_iteration_def py_mod_def split: sum.splits if_splits)
  from assms(1) e vf v cf have
    s: "(if (e + 1) mod checkpoint_freq c = 0 then save_checkpoint t2 False else Inr t2) = Inr t'"
    by (auto simp: train_iteration_def py_mod_def split: sum.splits if_splits)
  note E = train_epoch_Inr [OF e]
  from E have s1: "same_setup t t1" by simp
  then have eq1: "val_loader t1 = val_loader t" "world_size t1 = world_size t" "is_main t1 = is_main t"
    "config t1 = config t"
    by (simp_all add: same_setup_def)
  have V: "same_setup t1 t2 \<and>
         epoch (state t2) = epoch (state t1) \<and>
         global_step (state t2) = global_step (state t1) \<and>
         optimizer_steps (events t2) = optimizer_steps (events t1) \<and>
         scheduler_steps (events t2) = scheduler_steps (events t1) \<and>
         best_loss (state t2) = (if better then avg else best_loss (state t1)) \<and>
         saved_paths (events t2) = saved_paths (events t1) @ (if better then [best_path (config t1)] else [])"
  proof (cases "(e + 1) mod validation_freq c = 0")
    case True
    with v have "validate t1 = Inr t2" by simp
    from validate_Inr [OF this] show ?thesis using E True eq1
      by (simp add: better_def avg_def bs_def)
  next
    case False
    with v have "t2 = t1" by simp
    then show ?thesis using False by (simp add: better_def same_setup_refl)
  qed
  then have s2: "same_setup t1 t2" by simp
  then have eq2: "is_main t2 = is_main t1" "config t2 = config t1" by (simp_all add: same_setup_def)
  have S: "same_setup t2 t' \<and> state t' = state t2 \<and>
         optimizer_steps (events t') = optimizer_steps (events t2) \<and>
         scheduler_steps (events t') = scheduler_steps (events t2) \<and>
         saved_paths (events t') = saved_paths (events t2) @
           (if (e + 1) mod checkpoint_freq c = 0 \<and> is_main t
            then [periodic_path (config t) (epoch (state t) + 1)] else [])"
  proof (cases "(e + 1) mod checkpoint_freq c = 0")
    case True
    with s have "save_checkpoint t2 False = Inr t'" by simp
    from save_checkpoint_Inr [OF this] show ?thesis using True eq1 eq2 V E
      by (simp add: periodic_path_def checkpoint_filename_def)
  next
    case False
    with s have "t' = t2" by simp
    then show ?thesis using False by (simp add: same_setup_refl)
  qed
  have "same_setup t t'" using s1 s2 S by (blast intro: same_setup_trans)
  then show ?thesis using vf cf E V S eq1 by simp
qed

lemma train_iteration_total:
  assumes "genuine t" "grad_accum_steps (config t) \<noteq> 0"
    and "validation_freq c \<noteq> 0" "checkpoint_freq c \<noteq> 0"
  shows "\<exists>t'. train_iteration c t e = Inr t'"
proof -
  from train_epoch_total [OF assms(1,2)] obtain t1 where e: "train_epoch t = Inr t1" by blast
  from train_epoch_Inr [OF e] have "same_setup t t1" by simp
  then have g1: "genuine t1" using assms(1) by (simp add: same_setup_genuine)
  obtain t2 where v: "(if (e + 1) mod validation_freq c = 0 then validate t1 else Inr t1) = Inr t2"
    using validate_total [of t1] g1 by (cases "(e + 1) mod validation_freq c = 0") auto
  have "same_setup t1 t2" using v validate_Inr [of t1 t2]
    by (cases "(e + 1) mod validation_freq c = 0") (simp_all add: same_setup_refl)
  then have g2: "genuine t2" using g1 by (simp add: same_setup_genuine)
  obtain t3 where s: "(if (e + 1) mod checkpoint_freq c = 0 then save_checkpoint t2 False else Inr t2) = Inr t3"
    using save_checkpoint_total [of t2 False] g2 by (cases "(e + 1) mod checkpoint_freq c = 0") auto
  show ?thesis using e v s assms(3,4) by (simp add: train_iteration_def py_mod_def)
qed

lemma train_loop_total:
  assumes "genuine t" "grad_accum_steps (config t) \<noteq> 0"
    and "validation_freq c \<noteq> 0" "checkpoint_freq c \<noteq> 0"
  shows "\<exists>t'. train_loop c t es = Inr t'"
  using assms(1,2)
proof (induction es arbitrary: t)
  case Nil
  show ?case by simp
next
  case (Cons e es)
  from train_iteration_total [OF Cons.prems assms(3,4)] obtain t1 where
    i: "train_iteration c t e = Inr t1" by blast
  from train_iteration_Inr [OF i] have "same_setup t t1" by simp
  then have "genuine t1" "grad_accum_steps (config t1) \<noteq> 0"
    using Cons.prems by (simp_all add: same_setup_genuine) (simp add: same_setup_def)
  from Cons.IH [OF this] show ?case using i by simp
qed

lemma train_loop_Inr:
  assumes "train_loop c t es = Inr t'"
  shows "same_setup t t' \<and> epoch (state t') = epoch (state t) + int (length es) \<and>
         global_step (state t) \<le> global_step (state t') \<and>
         float_le (best_loss (state t')) (best_loss (state t))"
  using assms
proof (induction es arbitrary: t)
  case Nil
  then show ?case by (simp add: same_setup_refl float_le_refl)
next
  case (Cons e es)
  from Cons.prems obtain t1 where i: "train_iteration c t e = Inr t1"
    and r: "train_loop c t1 es = Inr t'"
    by (auto split: sum.splits)
  note I = train_iteration_Inr [OF i]
  note R = Cons.IH [OF r]
  have "float_le (best_loss (state t1)) (best_loss (state t))"
    using I by (auto simp: float_le_refl float_less_le)
  with R have "float_le (best_loss (state t')) (best_loss (state t))"
    by (blast intro: float_le_trans)
  moreover have "same_setup t t'" using I R by (blast intro: same_setup_trans)
  ultimately show ?case using I R by simp
qed

lemma train_loop_global_step:
  assumes "train_loop c t es = Inr t'"
    and "\<forall>e. length (train_loader t e) = B"
  shows "global_step (state t') = global_step (state t) +
           int (length es) * int (length (filter (\<lambda>k. (k + 1) mod grad_accum_steps (config t) = 0) (indices 0 B)))"
  using assms
proof (induction es arbitrary: t)
  case Nil
  then show ?case by simp
next
  case (Cons e es)
  from Cons.prems obtain t1 where i: "train_iteration c t e = Inr t1"
    and r: "train_loop c t1 es = Inr t'"
    by (auto split: sum.splits)
  note I = train_iteration_Inr [OF i]
  from I have eq: "train_loader t1 = train_loader t" "config t1 = config t" by (simp_all add: same_setup_def)
  with Cons.prems(2) have "\<forall>e. length (train_loader t1 e) = B" by simp
  from Cons.IH [OF r this] show ?case using I Cons.prems(2) eq by (simp add: algebra_simps)
qed

lemma train_loop_steps:
  assumes "train_loop c t es = Inr t'"
    and "\<forall>e. length (train_loader t e) = B"
  defines "S \<equiv> filter (\<lambda>k. (k + 1) mod grad_accum_steps (config t) = 0) (indices 0 B)"
  shows "optimizer_steps (events t') = optimizer_steps (events t) @ concat (replicate (length es) S) \<and>
         scheduler_steps (events t') = scheduler_steps (events t) @ concat (replicate (length es) S)"
  using assms(1,2) unfolding S_def
proof (induction es arbitrary: t)
  case Nil
  then show ?case by simp
next
  case (Cons e es)
  from Cons.prems obtain t1 where i: "train_iteration c t e = Inr t1"
    and r: "train_loop c t1 es = Inr t'"
    by (auto split: sum.splits)
  note I = train_iteration_Inr [OF i]
  from I have eq: "train_loader t1 = train_loader t" "config t1 = config t" by (simp_all add: same_setup_def)
  with Cons.prems(2) have "\<forall>e. length (train_loader t1 e) = B" by simp
  from Cons.IH [OF r this] show ?case using I Cons.prems(2) eq by simp
qed

lemma train_iteration_abs:
  "train_iteration (c\<lparr>validation_freq := \<bar>validation_freq c\<bar>,
                        checkpoint_freq := \<bar>checkpoint_freq c\<bar>\<rparr>) t e =
   train_iteration c t e"
proof -
  have a: "(a mod \<bar>b\<bar> = 0) = (a mod b = 0)" for a b :: int
    by (simp add: mod_eq_0_iff_dvd)
  show ?thesis
    by (simp add: train_iteration_def py_mod_def a split: sum.splits)
qed

lemma train_loop_abs:
  "train_loop (c\<lparr>validation_freq := \<bar>validation_freq c\<bar>,
                   checkpoint_freq := \<bar>checkpoint_freq c\<bar>\<rparr>) t es =
   train_loop c t es"
  by (induction es arbitrary: t) (simp_all add: train_iteration_abs split: sum.splits)

lemma negative_window_total_steps:
  fixes B W E :: int
  assumes "W < 0" "0 < B" "0 < E"
  shows "E * (B div W) \<le> 0"
proof -
  have "B div W < 0" using assms by (simp add: neg_imp_zdiv_neg_iff)
  then show ?thesis using assms(3) by (simp add: mult_le_0_iff)
qed


lemma count_step:
  fixes a W :: int
  assumes "0 < W"
  shows "(a + 1) div W = a div W + (if (a + 1) mod W = 0 then 1 else 0)"
proof -
  define q where "q = a div W"
  define r where "r = a mod W"
  have a: "a = q * W + r" by (simp add: q_def r_def)
  have r: "0 \<le> r" "r < W" using assms by (simp_all add: r_def)
  show ?thesis
  proof (cases "r + 1 = W")
    case True
    then have "a + 1 = (q + 1) * W" using a by (simp add: algebra_simps)
    then have "(a + 1) div W = q + 1" "(a + 1) mod W = 0" using assms by simp_all
    then show ?thesis by (simp add: q_def)
  next
    case False
    then have lt: "r + 1 < W" using r by simp
    have eq: "a + 1 = (r + 1) + q * W" using a by simp
    have "(a + 1) div W = q" "(a + 1) mod W = r + 1"
      using lt r by (simp_all add: eq)
    then show ?thesis using r by (simp add: q_def)
  qed
qed

lemma indices_0_map: "indices 0 B = map int [0..<B]" by (simp add: indices_def)

lemma count_multiples:
  fixes W :: int
  assumes "0 < W"
  shows "int (length (filter (\<lambda>k. (k + 1) mod W = 0) (map int [0..<B]))) = int B div W"
proof (induction B)
  case 0
  show ?case by simp
next
  case (Suc B)
  have "int (Suc B) div W = (int B + 1) div W" by (simp add: add.commute)
  also have "\<dots> = int B div W + (if (int B + 1) mod W = 0 then 1 else 0)"
    by (rule count_step [OF assms])
  finally show ?case using Suc by simp
qed

lemma count_indices:
  fixes W :: int
  assumes "0 < W"
  shows "int (length (filter (\<lambda>k. (k + 1) mod W = 0) (indices 0 B))) = int B div W"
  using count_multiples [OF assms, of B] by (simp add: indices_0_map)



lemma format_04d_four_digits:
  assumes "0 \<le> e" "e < 10000"
  shows "format_04d e =
           [''0123456789'' ! (nat e div 1000), ''0123456789'' ! (nat e div 100 mod 10),
            ''0123456789'' ! (nat e div 10 mod 10), ''0123456789'' ! (nat e mod 10)]"
proof -
  define n where "n = nat e"
  have n: "n < 10000" using assms by (simp add: n_def)
  have r: "replicate 3 x = [x, x, x]" "replicate 2 x = [x, x]" for x :: char
    by (simp_all add: numeral_3_eq_3 numeral_2_eq_2)
  have h2: "k div 10 div 10 = k div 100" for k :: nat
    by (simp add: div_mult2_eq [symmetric])
  have h3: "k div 10 div 100 = k div 1000" for k :: nat
    by (simp add: div_mult2_eq [symmetric])
  have d1: "decimal k = [''0123456789'' ! k]" if "k < 10" for k
    using that by (simp add: decimal.simps)
  have d2: "decimal k = [''0123456789'' ! (k div 10), ''0123456789'' ! (k mod 10)]"
    if "10 \<le> k" "k < 100" for k
  proof -
    have "k div 10 < 10" using that by simp
    then show ?thesis using that d1 [of "k div 10"] by (subst decimal.simps) simp
  qed
  have d3: "decimal k = [''0123456789'' ! (k div 100), ''0123456789'' ! (k div 10 mod 10),
                         ''0123456789'' ! (k mod 10)]"
    if "100 \<le> k" "k < 1000" for k
  proof -
    have "10 \<le> k div 10" "k div 10 < 100" using that by simp_all
    from d2 [OF this] show ?thesis using that by (subst decimal.simps) (simp add: h2)
  qed
  have d4: "decimal k = [''0123456789'' ! (k div 1000), ''0123456789'' ! (k div 100 mod 10),
                         ''0123456789'' ! (k div 10 mod 10), ''0123456789'' ! (k mod 10)]"
    if "1000 \<le> k" "k < 10000" for k
  proof -
    have "100 \<le> k div 10" "k div 10 < 1000" using that by simp_all
    from d3 [OF this] show ?thesis using that by (subst decimal.simps) (simp add: h2 h3)
  qed
  consider "n < 10" | "10 \<le> n" "n < 100" | "100 \<le> n" "n < 1000" | "1000 \<le> n" "n < 10000"
    using n by linarith
  then have "zfill 4 (decimal n) =
           [''0123456789'' ! (n div 1000), ''0123456789'' ! (n div 100 mod 10),
            ''0123456789'' ! (n div 10 mod 10), ''0123456789'' ! (n mod 10)]"
  proof cases
    case 1
    then show ?thesis by (simp add: d1 zfill_def r)
  next
    case 2
    then show ?thesis by (simp add: d2 zfill_def r)
  next
    case 3
    then show ?thesis by (simp add: d3 zfill_def r)
  next
    case 4
    then show ?thesis by (simp add: d4 zfill_def)
  qed
  then show ?thesis using assms by (simp add: format_04d_def n_def)
qed

lemma train_loop_saves_other_rank:
  assumes "train_loop c t es = Inr t'" and "\<not> is_main t"
  shows "saved_paths (events t') = saved_paths (events t) \<and>
         best_loss (state t') = best_loss (state t)"
  using assms
proof (induction es arbitrary: t)
  case Nil
  then show ?case by simp
next
  case (Cons e es)
  from Cons.prems obtain t1 where i: "train_iteration c t e = Inr t1"
    and r: "train_loop c t1 es = Inr t'"
    by (auto split: sum.splits)
  note I = train_iteration_Inr [OF i]
  from I Cons.prems(2) have "\<not> is_main t1" by (simp add: same_setup_def)
  from Cons.IH [OF r this] show ?case using I Cons.prems(2) by simp
qed

lemma float_less_neq: "float_less x y \<Longrightarrow> x \<noteq> y"
  by (cases x; cases y) auto

lemma train_loop_counters_agree:
  assumes "train_loop c a es = Inr a'" and "train_loop c b es = Inr b'"
    and "config a = config b" and "train_loader a = train_loader b"
    and "epoch (state a) = epoch (state b)" and "global_step (state a) = global_step (state b)"
  shows "epoch (state a') = epoch (state b') \<and> global_step (state a') = global_step (state b')"
  using assms
proof (induction es arbitrary: a b)
  case Nil
  then show ?case by simp
next
  case (Cons e es)
  from Cons.prems(1) obtain a1 where ia: "train_iteration c a e = Inr a1"
    and ra: "train_loop c a1 es = Inr a'" by (auto split: sum.splits)
  from Cons.prems(2) obtain b1 where ib: "train_iteration c b e = Inr b1"
    and rb: "train_loop c b1 es = Inr b'" by (auto split: sum.splits)
  note A = train_iteration_Inr [OF ia] and B = train_iteration_Inr [OF ib]
  have "config a1 = config b1" "train_loader a1 = train_loader b1"
    using A B Cons.prems(3,4) by (simp_all add: same_setup_def)
  moreover have "epoch (state a1) = epoch (state b1)" "global_step (state a1) = global_step (state b1)"
    using A B Cons.prems(3-6) by simp_all
  ultimately show ?case by (rule Cons.IH [OF ra rb])
qed

lemma train_loop_best_agree:
  assumes "train_loop c a es = Inr a'" and "train_loop c b es = Inr b'"
    and "val_loader a = val_loader b" and "world_size a = world_size b" and "is_main a = is_main b"
    and "epoch (state a) = epoch (state b)" and "best_loss (state a) = best_loss (state b)"
  shows "best_loss (state a') = best_loss (state b')"
  using assms
proof (induction es arbitrary: a b)
  case Nil
  then show ?case by simp
next
  case (Cons e es)
  from Cons.prems(1) obtain a1 where ia: "train_iteration c a e = Inr a1"
    and ra: "train_loop c a1 es = Inr a'" by (auto split: sum.splits)
  from Cons.prems(2) obtain b1 where ib: "train_iteration c b e = Inr b1"
    and rb: "train_loop c b1 es = Inr b'" by (auto split: sum.splits)
  note A = train_iteration_Inr [OF ia] and B = train_iteration_Inr [OF ib]
  have "val_loader a1 = val_loader b1" "world_size a1 = world_size b1" "is_main a1 = is_main b1"
    using A B Cons.prems(3-5) by (simp_all add: same_setup_def)
  moreover have "epoch (state a1) = epoch (state b1)" "best_loss (state a1) = best_loss (state b1)"
    using A B Cons.prems(3-7) by simp_all
  ultimately show ?case by (rule Cons.IH [OF ra rb])
qed

lemma py_range_0_1: "py_range 0 1 = [0]" by (simp add: py_range_def)


section \<open>The claims\<close>

subsection \<open>C1: the step-count invariant\<close>

text \<open>
  C1. Let the accumulation window be \<open>W \<ge> 1\<close> and let the training data source yield
  \<open>B\<close> batches at every epoch. Within an epoch the optimizer steps, the scheduler ticks
  and \<open>global_step\<close> is incremented exactly at the batch indices \<open>k < B\<close> for which
  \<open>k + 1\<close> is a multiple of \<open>W\<close>, once each; there are \<open>floor(B / W)\<close> of them, so a
  trailing partial window and an epoch without batches add no step. Every run of \<open>E\<close>
  epochs (the loop over a list of \<open>E\<close> epoch numbers) that completes repeats these
  steps and ticks \<open>E\<close> times and leaves \<open>global_step\<close> at its initial value plus
  \<open>E * floor(B / W)\<close>.
\<close>

theorem step_count_invariant:
  assumes "0 < W" and "grad_accum_steps (config t) = W"
    and "\<forall>e. length (train_loader t e) = B"
  shows "(\<forall>t'. train_loop c t es = Inr t' \<longrightarrow>
            global_step (state t') = global_step (state t) + int (length es) * (int B div W) \<and>
            optimizer_steps (events t') =
              optimizer_steps (events t) @
              concat (replicate (length es) (filter (\<lambda>k. (k + 1) mod W = 0) (map int [0..<B]))) \<and>
            scheduler_steps (events t') =
              scheduler_steps (events t) @
              concat (replicate (length es) (filter (\<lambda>k. (k + 1) mod W = 0) (map int [0..<B])))) \<and>
         (\<forall>t'. train_epoch t = Inr t' \<longrightarrow>
            optimizer_steps (events t') =
              optimizer_steps (events t) @ filter (\<lambda>k. (k + 1) mod W = 0) (map int [0..<B]) \<and>
            scheduler_steps (events t') =
              scheduler_steps (events t) @ filter (\<lambda>k. (k + 1) mod W = 0) (map int [0..<B]) \<and>
            global_step (state t') = global_step (state t) + int B div W) \<and>
         int (length (filter (\<lambda>k. (k + 1) mod W = 0) (map int [0..<B]))) = int B div W"
proof (intro conjI allI impI)
  fix t' assume l: "train_loop c t es = Inr t'"
  from train_loop_global_step [OF l assms(3)]
  show "global_step (state t') = global_step (state t) + int (length es) * (int B div W)"
    by (simp add: assms(2) count_indices [OF assms(1)])
  from train_loop_steps [OF l assms(3)]
  show "optimizer_steps (events t') =
          optimizer_steps (events t) @
          concat (replicate (length es) (filter (\<lambda>k. (k + 1) mod W = 0) (map int [0..<B])))"
    and "scheduler_steps (events t') =
          scheduler_steps (events t) @
          concat (replicate (length es) (filter (\<lambda>k. (k + 1) mod W = 0) (map int [0..<B])))"
    by (simp_all add: assms(2) indices_0_map)
next
  fix t' assume e: "train_epoch t = Inr t'"
  from train_epoch_Inr [OF e]
  show "optimizer_steps (events t') =
          optimizer_steps (events t) @ filter (\<lambda>k. (k + 1) mod W = 0) (map int [0..<B])"
    and "scheduler_steps (events t') =
          scheduler_steps (events t) @ filter (\<lambda>k. (k + 1) mod W = 0) (map int [0..<B])"
    using assms(2,3) by (simp_all add: indices_0_map)
  from train_epoch_Inr [OF e]
  show "global_step (state t') = global_step (state t) + int B div W"
    using assms(2,3) by (simp add: count_indices [OF assms(1)])
next
  show "int (length (filter (\<lambda>k. (k + 1) mod W = 0) (map int [0..<B]))) = int B div W"
    by (rule count_multiples [OF assms(1)])
qed

theorem step_count_invariant_witness:
  "\<exists>t'. train_loop (default_config\<lparr>epochs := 1, grad_accum_steps := 2\<rparr>)
           (example_trainer (default_config\<lparr>epochs := 1, grad_accum_steps := 2\<rparr>) 0 scenario_train [])
           (py_range 0 1) = Inr t' \<and>
        global_step (state t') = 2 \<and>
        optimizer_steps (events t') = [1, 3] \<and> scheduler_steps (events t') = [1, 3]"
proof -
  let ?c = "default_config\<lparr>epochs := 1, grad_accum_steps := 2\<rparr>"
  let ?t = "example_trainer ?c 0 scenario_train []"
  have h: "(0::int) < 2" "grad_accum_steps (config ?t) = 2" "\<forall>e. length (train_loader ?t e) = 4"
    by (simp_all add: example_trainer_def default_config_def scenario_train_def)
  have "genuine ?t" "grad_accum_steps (config ?t) \<noteq> 0" "validation_freq ?c \<noteq> 0"
    "checkpoint_freq ?c \<noteq> 0"
    by (simp_all add: genuine_def example_trainer_def default_config_def)
  from train_loop_total [OF this] obtain t' where
    r: "train_loop ?c ?t (py_range 0 1) = Inr t'" by blast
  have u: "map int [0..<4] = [0, 1, 2, 3]" by (simp add: upt_rec)
  from step_count_invariant [OF h, of ?c "py_range 0 1"] r
  have "global_step (state t') = 2 \<and>
        optimizer_steps (events t') = [1, 3] \<and> scheduler_steps (events t') = [1, 3]"
    by (simp add: py_range_0_1 example_trainer_def initial_state_def u)
  with r show ?thesis by blast
qed

subsection \<open>C2: unsupported optimizer and schedule kinds\<close>

text \<open>
  C2 says that constructing the trainer fails for an unsupported optimizer or schedule
  kind and that no epoch runs. \<^verbatim>\<open>_create_optimizer\<close> and \<^verbatim>\<open>_create_scheduler\<close> return
  the \<^verbatim>\<open>NotImplementedError\<close> instead of raising it. With the schedule kind
  \<^verbatim>\<open>StepLR\<close> the construction succeeds; on rank 0 the run then fails inside the first
  epoch with \<^verbatim>\<open>AttributeError\<close> at \<^verbatim>\<open>self.scheduler.step()\<close>, and on rank 1, with a
  window larger than the number of batches, the whole run completes.
\<close>

theorem unsupported_kind_accepted:
  "create_optimizer (default_config\<lparr>optimizer := ''SGD''\<rparr>) =
     Optimizer_NotImplementedError ''Optimizer: SGD not implemented!'' \<and>
   map_sum id self_scheduler
     (init (default_config\<lparr>epochs := 1, lr_scheduler := ''StepLR''\<rparr>)
        (example_env 0 scenario_train scenario_val)) =
     Inr (Scheduler_NotImplementedError ''lr_scheduler:StepLR not implemented!'') \<and>
   train (default_config\<lparr>epochs := 1, lr_scheduler := ''StepLR''\<rparr>)
     (example_env 0 scenario_train scenario_val) = Inl (AttributeError ''step'') \<and>
   map_sum id state
     (train (default_config\<lparr>epochs := 1, grad_accum_steps := 8, lr_scheduler := ''StepLR''\<rparr>)
        (example_env 1 scenario_train scenario_val)) =
     Inr \<lparr>epoch = 1, global_step = 0, best_loss = PosInf\<rparr>"
  by (simp add: train_def init_def create_optimizer_def create_scheduler_def OneCycleLR_init_def py_floordiv_def
        example_env_def default_config_def scenario_train_def scenario_val_def initial_state_def
        py_range_0_1 train_iteration_def train_epoch_def accumulation_boundary_def emit_def py_mod_def
        optimizer_call_def scheduler_call_def validate_def save_checkpoint_def Let_def)

subsection \<open>C3: invalid configurations\<close>

text \<open>
  C3 says that a non-positive cadence aborts the run with a configuration error before
  any epoch. With both cadences \<open>-1\<close> the run of one epoch completes on rank 0: it
  trains, validates and writes both checkpoint files.
\<close>

theorem configuration_counterexample:
  "checkpoint_freq (default_config\<lparr>epochs := 1, validation_freq := - 1, checkpoint_freq := - 1\<rparr>) \<le> 0 \<and>
   validation_freq (default_config\<lparr>epochs := 1, validation_freq := - 1, checkpoint_freq := - 1\<rparr>) \<le> 0 \<and>
   map_sum id state
     (train (default_config\<lparr>epochs := 1, validation_freq := - 1, checkpoint_freq := - 1\<rparr>)
        (example_env 0 scenario_train scenario_val)) =
     Inr \<lparr>epoch = 1, global_step = 4, best_loss = Finite (1/2)\<rparr> \<and>
   map_sum id (saved_paths \<circ> events)
     (train (default_config\<lparr>epochs := 1, validation_freq := - 1, checkpoint_freq := - 1\<rparr>)
        (example_env 0 scenario_train scenario_val)) =
     Inr [''checkpoints/best.pt'', ''checkpoints/checkpoint_0001.pt'']"
proof -
  have f: "format_04d 1 = ''0001''" using format_04d_four_digits [of 1] by simp
  show ?thesis
    by (simp add: train_def init_def create_optimizer_def create_scheduler_def OneCycleLR_init_def py_floordiv_def
        example_env_def default_config_def scenario_train_def scenario_val_def initial_state_def
        py_range_0_1 train_iteration_def train_epoch_def accumulation_boundary_def emit_def py_mod_def
        optimizer_call_def scheduler_call_def validate_def save_checkpoint_def Let_def
        checkpoint_filename_def f)
qed

text \<open>
  C3, as the code has it. Nothing validates the configuration. With the schedule kind
  \<^verbatim>\<open>OneCycleLR\<close>, a zero accumulation window makes the construction of the trainer fail
  with \<^verbatim>\<open>ZeroDivisionError\<close>, and a negative one (with the optimizer \<^verbatim>\<open>AdamW\<close>, a
  positive number of epochs and at least one training batch) makes it fail with the
  \<^verbatim>\<open>ValueError\<close> of the scheduler's constructor; both happen before any epoch. A zero
  validation or checkpoint cadence makes the first iteration of the run fail with
  \<^verbatim>\<open>ZeroDivisionError\<close>, after its training epoch has run. So whenever an iteration of
  the run completes, both cadences are non-zero, and so is the accumulation window if the
  epoch had a batch. A negative cadence is accepted: the run behaves exactly as with its
  absolute value.
\<close>

theorem configuration_not_validated:
  "(lr_scheduler c = ''OneCycleLR'' \<and> grad_accum_steps c = 0 \<longrightarrow>
      init c env = Inl ZeroDivisionError \<and> train c env = Inl ZeroDivisionError) \<and>
   (lr_scheduler c = ''OneCycleLR'' \<and> optimizer c = ''AdamW'' \<and> grad_accum_steps c < 0 \<and>
    0 < epochs c \<and> env_train_loader env 0 \<noteq> [] \<longrightarrow>
      init c env = Inl (ValueError ''Expected positive integer total_steps'') \<and>
      train c env = Inl (ValueError ''Expected positive integer total_steps'')) \<and>
   (validation_freq c = 0 \<and> train_epoch t = Inr t1 \<longrightarrow>
      train_iteration c t e = Inl ZeroDivisionError) \<and>
   (checkpoint_freq c = 0 \<and> validation_freq c \<noteq> 0 \<and> train_epoch t = Inr t1 \<and>
    (if (e + 1) mod validation_freq c = 0 then validate t1 else Inr t1) = Inr t2 \<longrightarrow>
      train_iteration c t e = Inl ZeroDivisionError) \<and>
   (\<forall>t'. train_loop c t (e # es) = Inr t' \<longrightarrow>
      validation_freq c \<noteq> 0 \<and> checkpoint_freq c \<noteq> 0 \<and>
      (train_loader t (epoch (state t)) \<noteq> [] \<longrightarrow> grad_accum_steps (config t) \<noteq> 0)) \<and>
   train_loop (c\<lparr>validation_freq := \<bar>validation_freq c\<bar>,
                   checkpoint_freq := \<bar>checkpoint_freq c\<bar>\<rparr>) t es =
     train_loop c t es"
proof (intro conjI allI impI)
  assume a: "lr_scheduler c = ''OneCycleLR'' \<and> grad_accum_steps c = 0"
  then show i: "init c env = Inl ZeroDivisionError"
    by (simp add: init_def create_scheduler_def OneCycleLR_init_def py_floordiv_def Let_def)
  then show "train c env = Inl ZeroDivisionError" by (simp add: train_def)
next
  assume a: "lr_scheduler c = ''OneCycleLR'' \<and> optimizer c = ''AdamW'' \<and> grad_accum_steps c < 0 \<and>
    0 < epochs c \<and> env_train_loader env 0 \<noteq> []"
  then have "0 < int (length (env_train_loader env 0))" by simp
  with a have "epochs c * (int (length (env_train_loader env 0)) div grad_accum_steps c) \<le> 0"
    by (intro negative_window_total_steps) simp_all
  with a show i: "init c env = Inl (ValueError ''Expected positive integer total_steps'')"
    by (simp add: init_def create_scheduler_def create_optimizer_def OneCycleLR_init_def
          py_floordiv_def Let_def)
  then show "train c env = Inl (ValueError ''Expected positive integer total_steps'')"
    by (simp add: train_def)
next
  assume "validation_freq c = 0 \<and> train_epoch t = Inr t1"
  then show "train_iteration c t e = Inl ZeroDivisionError"
    by (simp add: train_iteration_def py_mod_def)
next
  assume "checkpoint_freq c = 0 \<and> validation_freq c \<noteq> 0 \<and> train_epoch t = Inr t1 \<and>
    (if (e + 1) mod validation_freq c = 0 then validate t1 else Inr t1) = Inr t2"
  then show "train_iteration c t e = Inl ZeroDivisionError"
    by (simp add: train_iteration_def py_mod_def)
next
  fix t' assume l: "train_loop c t (e # es) = Inr t'"
  then obtain t3 where i: "train_iteration c t e = Inr t3" by (auto split: sum.splits)
  from train_iteration_Inr [OF i]
  show "validation_freq c \<noteq> 0" "checkpoint_freq c \<noteq> 0" by simp_all
  { assume ne: "train_loader t (epoch (state t)) \<noteq> []"
    from i obtain t1 where "train_epoch t = Inr t1"
      by (auto simp: train_iteration_def split: sum.splits)
    then obtain t0 where
      "train_batches t 0 (replicate (world_size t) 0) 0 (train_loader t (epoch (state t))) = Inr t0"
      by (auto simp: train_epoch_def split: sum.splits)
    with ne show "grad_accum_steps (config t) \<noteq> 0"
      by (cases "train_loader t (epoch (state t))") (auto simp: py_mod_def split: if_splits) }
next
  show "train_loop (c\<lparr>validation_freq := \<bar>validation_freq c\<bar>,
                   checkpoint_freq := \<bar>checkpoint_freq c\<bar>\<rparr>) t es =
     train_loop c t es"
    by (rule train_loop_abs)
qed

theorem configuration_not_validated_witness:
  "init (default_config\<lparr>grad_accum_steps := 0\<rparr>) (example_env 0 scenario_train scenario_val) =
     Inl ZeroDivisionError \<and>
   init (default_config\<lparr>grad_accum_steps := - 2\<rparr>) (example_env 0 scenario_train scenario_val) =
     Inl (ValueError ''Expected positive integer total_steps'') \<and>
   (\<exists>t1. train_epoch (example_trainer (default_config\<lparr>validation_freq := 0\<rparr>) 0
               scenario_train scenario_val) = Inr t1 \<and>
         epoch (state t1) = 1 \<and> global_step (state t1) = 4) \<and>
   train_iteration (default_config\<lparr>validation_freq := 0\<rparr>)
     (example_trainer (default_config\<lparr>validation_freq := 0\<rparr>) 0 scenario_train scenario_val) 0 =
     Inl ZeroDivisionError \<and>
   train_iteration (default_config\<lparr>checkpoint_freq := 0\<rparr>)
     (example_trainer (default_config\<lparr>checkpoint_freq := 0\<rparr>) 0 scenario_train scenario_val) 0 =
     Inl ZeroDivisionError \<and>
   train_loop (default_config\<lparr>validation_freq := - 3, checkpoint_freq := - 2\<rparr>)
     (example_trainer default_config 0 scenario_train scenario_val) (py_range 0 6) =
   train_loop (default_config\<lparr>validation_freq := 3, checkpoint_freq := 2\<rparr>)
     (example_trainer default_config 0 scenario_train scenario_val) (py_range 0 6)"
proof -
  let ?c0 = "default_config\<lparr>grad_accum_steps := 0\<rparr>"
  let ?cn = "default_config\<lparr>grad_accum_steps := - 2\<rparr>"
  let ?env = "example_env 0 scenario_train scenario_val"
  let ?cv = "default_config\<lparr>validation_freq := 0\<rparr>"
  let ?tv = "example_trainer ?cv 0 scenario_train scenario_val"
  let ?cc = "default_config\<lparr>checkpoint_freq := 0\<rparr>"
  let ?tc = "example_trainer ?cc 0 scenario_train scenario_val"
  let ?cm = "default_config\<lparr>validation_freq := - 3, checkpoint_freq := - 2\<rparr>"
  let ?tm = "example_trainer default_config 0 scenario_train scenario_val"
  have a: "lr_scheduler ?c0 = ''OneCycleLR'' \<and> grad_accum_steps ?c0 = 0"
    by (simp add: default_config_def)
  have n: "lr_scheduler ?cn = ''OneCycleLR'' \<and> optimizer ?cn = ''AdamW'' \<and> grad_accum_steps ?cn < 0 \<and>
    0 < epochs ?cn \<and> env_train_loader ?env 0 \<noteq> []"
    by (simp add: default_config_def example_env_def scenario_train_def)
  have gv: "genuine ?tv" "grad_accum_steps (config ?tv) \<noteq> 0"
    by (simp_all add: genuine_def example_trainer_def default_config_def)
  from train_epoch_total [OF gv] obtain tv1 where ev: "train_epoch ?tv = Inr tv1" by blast
  have ev1: "epoch (state tv1) = 1 \<and> global_step (state tv1) = 4"
    using train_epoch_Inr [OF ev]
    by (simp add: example_trainer_def initial_state_def default_config_def scenario_train_def
          indices_0_map upt_rec)
  have b: "validation_freq ?cv = 0" by (simp add: default_config_def)
  have gc: "genuine ?tc" "grad_accum_steps (config ?tc) \<noteq> 0"
    by (simp_all add: genuine_def example_trainer_def default_config_def)
  from train_epoch_total [OF gc] obtain tc1 where ec: "train_epoch ?tc = Inr tc1" by blast
  from train_epoch_Inr [OF ec] have "same_setup ?tc tc1" by simp
  then have "genuine tc1" using gc(1) by (simp add: same_setup_genuine)
  then have "genuine tc1 \<or> \<not> is_main tc1" by simp
  from validate_total [OF this] obtain tc2 where vc: "validate tc1 = Inr tc2" by blast
  have d: "checkpoint_freq ?cc = 0 \<and> validation_freq ?cc \<noteq> 0" by (simp add: default_config_def)
  have v: "(if (0 + 1) mod validation_freq ?cc = 0 then validate tc1 else Inr tc1) = Inr tc2"
    using vc by (simp add: default_config_def)
  from configuration_not_validated [of ?c0 ?env] a
  have 1: "init ?c0 ?env = Inl ZeroDivisionError" by blast
  from configuration_not_validated [of ?cn ?env] n
  have 2: "init ?cn ?env = Inl (ValueError ''Expected positive integer total_steps'')" by blast
  from configuration_not_validated [of ?cv ?env ?tv tv1 0] b ev
  have 3: "train_iteration ?cv ?tv 0 = Inl ZeroDivisionError" by blast
  from configuration_not_validated [of ?cc ?env ?tc tc1 0 tc2] d ec v
  have 4: "train_iteration ?cc ?tc 0 = Inl ZeroDivisionError" by blast
  from configuration_not_validated [of ?cm ?env ?tm tv1 0 tc2 "py_range 0 6"]
  have 5: "train_loop (?cm\<lparr>validation_freq := \<bar>validation_freq ?cm\<bar>,
                          checkpoint_freq := \<bar>checkpoint_freq ?cm\<bar>\<rparr>) ?tm (py_range 0 6) =
           train_loop ?cm ?tm (py_range 0 6)" by blast
  have 6: "?cm\<lparr>validation_freq := \<bar>validation_freq ?cm\<bar>,
               checkpoint_freq := \<bar>checkpoint_freq ?cm\<bar>\<rparr> =
           default_config\<lparr>validation_freq := 3, checkpoint_freq := 2\<rparr>"
    by (simp add: default_config_def)
  from 1 2 ev ev1 3 4 5 6 show ?thesis by auto
qed

subsection \<open>C4: consistency after a resume\<close>

text \<open>
  C4 says that the broadcast after loading overwrites the counters of every rank with
  those of rank 0. The list given to \<^verbatim>\<open>broadcast_object_list\<close> is a temporary: rank 1,
  whose file holds epoch 2 and step 20, receives 3 and 30 in that list and keeps 2 and
  20 in its state, while rank 0 is at 3 and 30.
\<close>

theorem resume_broadcast_discarded:
  "map_sum id (map_prod state id)
     (load_checkpoint (example_trainer default_config 1 scenario_train scenario_val)
        (resume_env 1 \<lparr>epoch = 2, global_step = 20, best_loss = Finite (7/10)\<rparr> [3, 30])
        ''resume.pt'') =
     Inr (\<lparr>epoch = 2, global_step = 20, best_loss = Finite (7/10)\<rparr>, [3, 30]) \<and>
   map_sum id state
     (init (default_config\<lparr>resume_checkpoint := Some ''resume.pt''\<rparr>)
        (resume_env 1 \<lparr>epoch = 2, global_step = 20, best_loss = Finite (7/10)\<rparr> [3, 30])) =
     Inr \<lparr>epoch = 2, global_step = 20, best_loss = Finite (7/10)\<rparr> \<and>
   map_sum id state
     (init (default_config\<lparr>resume_checkpoint := Some ''resume.pt''\<rparr>)
        (resume_env 0 \<lparr>epoch = 3, global_step = 30, best_loss = Finite (1/2)\<rparr> [3, 30])) =
     Inr \<lparr>epoch = 3, global_step = 30, best_loss = Finite (1/2)\<rparr>"
  by (simp add: load_checkpoint_def CheckpointState_load_def resume_env_def example_env_def
        example_trainer_def optimizer_call_def scheduler_call_def broadcast_object_list_def Let_def
        init_def create_optimizer_def create_scheduler_def OneCycleLR_init_def py_floordiv_def default_config_def
        scenario_train_def)

subsection \<open>C5: the best score\<close>

text \<open>
  C5 says that after each validation pass \<^verbatim>\<open>best_loss\<close> decreases exactly when the mean
  validation loss is strictly below the current best, and that the first completed
  validation always qualifies. The update sits under \<^verbatim>\<open>if self.is_main\<close>: on rank 1,
  with the best at infinity and a mean of 0.5, a validation pass leaves the best at
  infinity. And on rank 0 a first validation pass whose mean is infinite does not
  qualify: the best stays at infinity and nothing is saved.
\<close>

theorem best_score_counterexample:
  "\<not> is_main (example_trainer default_config 1 scenario_train scenario_val) \<and>
   best_loss (state (example_trainer default_config 1 scenario_train scenario_val)) = PosInf \<and>
   float_less (spec_mean_validation_loss 2 scenario_val) PosInf \<and>
   map_sum id (best_loss \<circ> state)
     (validate (example_trainer default_config 1 scenario_train scenario_val)) = Inr PosInf \<and>
   is_main (example_trainer default_config 0 scenario_train scenario_val_inf) \<and>
   best_loss (state (example_trainer default_config 0 scenario_train scenario_val_inf)) = PosInf \<and>
   spec_mean_validation_loss 2 scenario_val_inf = PosInf \<and>
   map_sum id (best_loss \<circ> state)
     (validate (example_trainer default_config 0 scenario_train scenario_val_inf)) = Inr PosInf \<and>
   map_sum id (saved_paths \<circ> events)
     (validate (example_trainer default_config 0 scenario_train scenario_val_inf)) = Inr []"
  by (simp add: example_trainer_def initial_state_def validate_def scenario_val_def
        scenario_val_inf_def spec_mean_validation_loss_def Let_def emit_def)

text \<open>
  C5, as the code has it. \<^verbatim>\<open>best_loss\<close> starts at infinity and never increases, on any
  rank. On the coordinating rank, a validation pass over a non-empty validation set
  decreases it exactly when the mean validation loss of the pass is strictly below the
  current best, to that mean; so the first such pass qualifies when its mean is finite,
  and does not when its mean is infinite or NaN. The file tagged "best" is written
  exactly on those updates, and an iteration of the run writes it on no other occasion.
  On every other rank validation leaves \<^verbatim>\<open>best_loss\<close> as it is and writes nothing.
\<close>

theorem best_score_dynamics:
  assumes "bs = val_loader t (epoch (state t))"
    and "avg = spec_mean_validation_loss (world_size t) bs"
  shows "best_loss initial_state = PosInf \<and>
         (\<forall>t'. validate t = Inr t' \<longrightarrow>
            float_le (best_loss (state t')) (best_loss (state t)) \<and>
            (is_main t \<and> bs \<noteq> [] \<longrightarrow>
               (float_less (best_loss (state t')) (best_loss (state t)) \<longleftrightarrow>
                  float_less avg (best_loss (state t))) \<and>
               best_loss (state t') =
                 (if float_less avg (best_loss (state t)) then avg else best_loss (state t)) \<and>
               saved_paths (events t') = saved_paths (events t) @
                 (if float_less avg (best_loss (state t)) then [best_path (config t)] else [])) \<and>
            (is_main t \<and> bs \<noteq> [] \<and> best_loss (state t) = PosInf \<and> is_finite avg \<longrightarrow>
               best_loss (state t') = avg \<and>
               saved_paths (events t') = saved_paths (events t) @ [best_path (config t)]) \<and>
            (is_main t \<and> bs \<noteq> [] \<and> best_loss (state t) = PosInf \<and> (avg = PosInf \<or> avg = NaN) \<longrightarrow>
               best_loss (state t') = PosInf \<and>
               saved_paths (events t') = saved_paths (events t)) \<and>
            (\<not> is_main t \<longrightarrow>
               best_loss (state t') = best_loss (state t) \<and>
               saved_paths (events t') = saved_paths (events t))) \<and>
         (\<forall>t'. train_iteration c t e = Inr t' \<longrightarrow>
            filter (\<lambda>p. p = best_path (config t)) (saved_paths (events t')) =
              filter (\<lambda>p. p = best_path (config t)) (saved_paths (events t)) @
              (if best_loss (state t') \<noteq> best_loss (state t) then [best_path (config t)] else [])) \<and>
         (\<forall>t'. train_loop c t es = Inr t' \<longrightarrow>
            float_le (best_loss (state t')) (best_loss (state t)))"
proof (intro conjI allI impI)
  show "best_loss initial_state = PosInf" by (simp add: initial_state_def)
next
  fix t' assume v: "validate t = Inr t'"
  note V = validate_Inr [OF v, folded assms]
  show "float_le (best_loss (state t')) (best_loss (state t))"
    using V by (auto simp: float_le_refl float_less_le)
  { assume m: "is_main t \<and> bs \<noteq> []"
    show "float_less (best_loss (state t')) (best_loss (state t)) \<longleftrightarrow>
            float_less avg (best_loss (state t))"
      using V m float_less_neq [of "best_loss (state t)" "best_loss (state t)"] by auto
    show "best_loss (state t') =
            (if float_less avg (best_loss (state t)) then avg else best_loss (state t))"
      using V m by simp
    show "saved_paths (events t') = saved_paths (events t) @
            (if float_less avg (best_loss (state t)) then [best_path (config t)] else [])"
      using V m by simp }
  { assume f: "is_main t \<and> bs \<noteq> [] \<and> best_loss (state t) = PosInf \<and> is_finite avg"
    then have "float_less avg (best_loss (state t))" by (cases avg) simp_all
    with f V show "best_loss (state t') = avg"
      and "saved_paths (events t') = saved_paths (events t) @ [best_path (config t)]"
      by simp_all }
  { assume f: "is_main t \<and> bs \<noteq> [] \<and> best_loss (state t) = PosInf \<and> (avg = PosInf \<or> avg = NaN)"
    then have "\<not> float_less avg (best_loss (state t))" by auto
    with f V show "best_loss (state t') = PosInf"
      and "saved_paths (events t') = saved_paths (events t)"
      by simp_all }
  { assume m: "\<not> is_main t"
    show "best_loss (state t') = best_loss (state t)" using V m by simp
    show "saved_paths (events t') = saved_paths (events t)" using V m by simp }
next
  fix t' assume i: "train_iteration c t e = Inr t'"
  note I = train_iteration_Inr [OF i]
  show "filter (\<lambda>p. p = best_path (config t)) (saved_paths (events t')) =
          filter (\<lambda>p. p = best_path (config t)) (saved_paths (events t)) @
          (if best_loss (state t') \<noteq> best_loss (state t) then [best_path (config t)] else [])"
    using I float_less_neq [of "spec_mean_validation_loss (world_size t) (val_loader t (epoch (state t) + 1))" "best_loss (state t)"]
    by (auto simp: periodic_not_best)
next
  fix t' assume "train_loop c t es = Inr t'"
  from train_loop_Inr [OF this] show "float_le (best_loss (state t')) (best_loss (state t))" by simp
qed

theorem best_score_dynamics_witness:
  "\<exists>t'. validate (example_trainer default_config 0 scenario_train scenario_val) = Inr t' \<and>
        best_loss (state t') = Finite (1/2) \<and>
        saved_paths (events t') = [''checkpoints/best.pt'']"
proof -
  let ?u = "example_trainer default_config 0 scenario_train scenario_val"
  have g: "genuine ?u \<or> \<not> is_main ?u" by (simp add: genuine_def example_trainer_def)
  from validate_total [OF g] obtain t' where v: "validate ?u = Inr t'" by blast
  have h: "scenario_val = val_loader ?u (epoch (state ?u))"
    "Finite (1/2) = spec_mean_validation_loss (world_size ?u) scenario_val"
    by (simp_all add: example_trainer_def spec_mean_validation_loss_def scenario_val_def)
  have m: "is_main ?u \<and> scenario_val \<noteq> [] \<and> best_loss (state ?u) = PosInf \<and> is_finite (Finite (1/2))"
    by (simp add: example_trainer_def scenario_val_def initial_state_def)
  from best_score_dynamics [OF h, of default_config 0 "[]"] v m
  have "best_loss (state t') = Finite (1/2) \<and> saved_paths (events t') = [''checkpoints/best.pt'']"
    by (simp add: example_trainer_def initial_state_def best_path_def default_config_def)
  with v show ?thesis by blast
qed

subsection \<open>C6: validation aggregation\<close>

text \<open>
  C6. For a non-empty validation partition the mean validation loss that \<^verbatim>\<open>validate\<close>
  computes is the sum over the validation batches of the collective sum of the batch's
  per-rank losses divided by the world size, divided by the number of batches: the world
  size is divided out once per batch. It is the value the coordinating rank logs, and
  the value \<^verbatim>\<open>best_loss\<close> takes when it changes. Per-rank losses 0.4 and 0.6 on two
  ranks reduce to 1 and give the mean 0.5.
\<close>

theorem validation_aggregation:
  assumes "val_loader t (epoch (state t)) = bs" and "bs \<noteq> []"
  shows "float_div (snd (validate_batches t 0 bs)) (int (length bs)) =
           spec_mean_validation_loss (world_size t) bs \<and>
         (\<forall>t'. validate t = Inr t' \<and> is_main t \<longrightarrow>
            logged_validation (events t') =
              logged_validation (events t) @ [spec_mean_validation_loss (world_size t) bs]) \<and>
         (\<forall>t'. validate t = Inr t' \<and> best_loss (state t') \<noteq> best_loss (state t) \<longrightarrow>
            best_loss (state t') = spec_mean_validation_loss (world_size t) bs)"
proof (intro conjI allI impI)
  show "float_div (snd (validate_batches t 0 bs)) (int (length bs)) =
          spec_mean_validation_loss (world_size t) bs"
    by (simp add: validate_batches_total_loss spec_mean_validation_loss_def)
next
  fix t' assume "validate t = Inr t' \<and> is_main t"
  then have v: "validate t = Inr t'" and m: "is_main t" by simp_all
  from validate_Inr [OF v] show "logged_validation (events t') =
      logged_validation (events t) @ [spec_mean_validation_loss (world_size t) bs]"
    using assms m by simp
next
  fix t' assume "validate t = Inr t' \<and> best_loss (state t') \<noteq> best_loss (state t)"
  then have v: "validate t = Inr t'" and n: "best_loss (state t') \<noteq> best_loss (state t)" by simp_all
  from validate_Inr [OF v] n show "best_loss (state t') = spec_mean_validation_loss (world_size t) bs"
    using assms by (simp split: if_splits)
qed

theorem validation_aggregation_witness:
  "sum_list [Finite (2/5), Finite (3/5)] = Finite 1 \<and>
   float_div
     (snd (validate_batches (example_trainer default_config 0 scenario_train scenario_val) 0 scenario_val))
     (int (length scenario_val)) = Finite (1/2) \<and>
   (\<exists>t'. validate (example_trainer default_config 0 scenario_train scenario_val) = Inr t' \<and>
         logged_validation (events t') = [Finite (1/2)] \<and> best_loss (state t') = Finite (1/2))"
proof -
  let ?u = "example_trainer default_config 0 scenario_train scenario_val"
  have h: "val_loader ?u (epoch (state ?u)) = scenario_val" "scenario_val \<noteq> []"
    by (simp_all add: example_trainer_def scenario_val_def)
  have m: "spec_mean_validation_loss (world_size ?u) scenario_val = Finite (1/2)"
    by (simp add: spec_mean_validation_loss_def scenario_val_def example_trainer_def)
  have v: "validate ?u = Inr
      (?u\<lparr>state := initial_state\<lparr>best_loss := Finite (1/2)\<rparr>,
          events := [AllReduce (Finite 1), LogValidationLoss (Finite (1/2)),
                     CheckpointSaved ''checkpoints/best.pt'' (initial_state\<lparr>best_loss := Finite (1/2)\<rparr>)]\<rparr>)"
    by (simp add: validate_def example_trainer_def scenario_val_def Let_def emit_def initial_state_def
          save_checkpoint_def optimizer_call_def scheduler_call_def checkpoint_filename_def default_config_def)
  from validation_aggregation [OF h] m v show ?thesis
    by (simp add: example_trainer_def initial_state_def)
qed

subsection \<open>C7: periodic checkpoints\<close>



subsection \<open>C8: epoch monotonicity\<close>

text \<open>
  C8. Every completed call of \<^verbatim>\<open>train_epoch\<close> increases \<^verbatim>\<open>state.epoch\<close> by exactly 1.
  When the data source yields no batch the call completes and changes nothing else: no
  optimizer step, no effect. Validation and checkpoint writes leave \<^verbatim>\<open>state.epoch\<close>
  as it is, so over a completed run of the loop it only grows, by the number of epochs
  run; only \<^verbatim>\<open>load_checkpoint\<close> assigns it otherwise.
\<close>

theorem epoch_monotonicity:
  "(\<forall>t'. train_epoch t = Inr t' \<longrightarrow> epoch (state t') = epoch (state t) + 1) \<and>
   (train_loader t (epoch (state t)) = [] \<longrightarrow>
      train_epoch t = Inr (t\<lparr>state := (state t)\<lparr>epoch := epoch (state t) + 1\<rparr>\<rparr>)) \<and>
   (genuine t \<and> grad_accum_steps (config t) \<noteq> 0 \<longrightarrow> (\<exists>t'. train_epoch t = Inr t')) \<and>
   (\<forall>t'. validate t = Inr t' \<longrightarrow> epoch (state t') = epoch (state t)) \<and>
   (\<forall>t'. save_checkpoint t best = Inr t' \<longrightarrow> epoch (state t') = epoch (state t)) \<and>
   (\<forall>t'. train_loop c t es = Inr t' \<longrightarrow> epoch (state t') = epoch (state t) + int (length es))"
proof (intro conjI allI impI)
  fix t' assume "train_epoch t = Inr t'"
  from train_epoch_Inr [OF this] show "epoch (state t') = epoch (state t) + 1" by simp
next
  assume "train_loader t (epoch (state t)) = []"
  then show "train_epoch t = Inr (t\<lparr>state := (state t)\<lparr>epoch := epoch (state t) + 1\<rparr>\<rparr>)"
    by (simp add: train_epoch_def)
next
  assume "genuine t \<and> grad_accum_steps (config t) \<noteq> 0"
  then show "\<exists>t'. train_epoch t = Inr t'" by (simp add: train_epoch_total)
next
  fix t' assume "validate t = Inr t'"
  from validate_Inr [OF this] show "epoch (state t') = epoch (state t)" by simp
next
  fix t' assume "save_checkpoint t best = Inr t'"
  from save_checkpoint_Inr [OF this] show "epoch (state t') = epoch (state t)" by simp
next
  fix t' assume "train_loop c t es = Inr t'"
  from train_loop_Inr [OF this] show "epoch (state t') = epoch (state t) + int (length es)" by simp
qed

theorem epoch_monotonicity_witness:
  "train_epoch (example_trainer default_config 0 [] []) =
     Inr ((example_trainer default_config 0 [] [])\<lparr>state := initial_state\<lparr>epoch := 1\<rparr>\<rparr>) \<and>
   (\<exists>t'. train_epoch (example_trainer default_config 0 scenario_train []) = Inr t' \<and>
         epoch (state t') = 1)"
proof -
  let ?t = "example_trainer default_config 0 [] []"
  let ?u = "example_trainer default_config 0 scenario_train []"
  have e: "train_loader ?t (epoch (state ?t)) = []" by (simp add: example_trainer_def)
  have g: "genuine ?u \<and> grad_accum_steps (config ?u) \<noteq> 0"
    by (simp add: genuine_def example_trainer_def default_config_def)
  from epoch_monotonicity [of ?t] e
  have "train_epoch ?t = Inr (?t\<lparr>state := (state ?t)\<lparr>epoch := epoch (state ?t) + 1\<rparr>\<rparr>)" by blast
  moreover from epoch_monotonicity [of ?u] g
  have "\<exists>t'. train_epoch ?u = Inr t' \<and> epoch (state t') = epoch (state ?u) + 1" by blast
  ultimately show ?thesis by (simp add: example_trainer_def initial_state_def)
qed

subsection \<open>C9: the control plane across ranks\<close>

text \<open>
  C9 says that two ranks with the same configuration, initial state and losses end with
  equal states, and that the effect of validation on \<^verbatim>\<open>best_loss\<close> does not depend on
  the rank. The same validation pass takes rank 0 to the best 0.5 and leaves rank 1 at
  infinity.
\<close>

theorem rank_determinism_counterexample:
  "config (example_trainer default_config 0 scenario_train scenario_val) =
     config (example_trainer default_config 1 scenario_train scenario_val) \<and>
   state (example_trainer default_config 0 scenario_train scenario_val) =
     state (example_trainer default_config 1 scenario_train scenario_val) \<and>
   map_sum id state (validate (example_trainer default_config 0 scenario_train scenario_val)) =
     Inr \<lparr>epoch = 0, global_step = 0, best_loss = Finite (1/2)\<rparr> \<and>
   map_sum id state (validate (example_trainer default_config 1 scenario_train scenario_val)) =
     Inr \<lparr>epoch = 0, global_step = 0, best_loss = PosInf\<rparr>"
  by (simp add: example_trainer_def initial_state_def validate_def scenario_val_def Let_def emit_def
        save_checkpoint_def optimizer_call_def scheduler_call_def)

text \<open>
  C9, as the code has it. Two ranks with the same configuration, the same data and the
  same initial state that complete the same run agree on \<^verbatim>\<open>epoch\<close> and
  \<^verbatim>\<open>global_step\<close>. They agree on the whole state when both are, or both are not, the
  coordinating rank; a rank that is not the coordinating one keeps the \<^verbatim>\<open>best_loss\<close>
  it started with.
\<close>

theorem control_plane_determinism:
  assumes "train_loop c a es = Inr a'" and "train_loop c b es = Inr b'"
    and "config a = config b" and "train_loader a = train_loader b"
    and "val_loader a = val_loader b" and "world_size a = world_size b"
    and "state a = state b"
  shows "epoch (state a') = epoch (state b') \<and>
         global_step (state a') = global_step (state b') \<and>
         (is_main a = is_main b \<longrightarrow> state a' = state b') \<and>
         (\<not> is_main b \<longrightarrow> best_loss (state b') = best_loss (state b))"
proof -
  have c: "epoch (state a') = epoch (state b') \<and> global_step (state a') = global_step (state b')"
    using train_loop_counters_agree [OF assms(1,2,3,4)] assms(7) by simp
  have "best_loss (state a') = best_loss (state b')" if "is_main a = is_main b"
    using train_loop_best_agree [OF assms(1,2,5,6) that] assms(7) by simp
  then have "is_main a = is_main b \<longrightarrow> state a' = state b'"
    using c by (simp add: TrainerState.equality)
  moreover have "\<not> is_main b \<longrightarrow> best_loss (state b') = best_loss (state b)"
    using train_loop_saves_other_rank [OF assms(2)] by simp
  ultimately show ?thesis using c by simp
qed

theorem control_plane_determinism_witness:
  "\<exists>a' b'.
     train_loop default_config (example_trainer default_config 0 scenario_train scenario_val)
       (py_range 0 2) = Inr a' \<and>
     train_loop default_config (example_trainer default_config 1 scenario_train scenario_val)
       (py_range 0 2) = Inr b' \<and>
     epoch (state a') = epoch (state b') \<and> global_step (state a') = global_step (state b') \<and>
     best_loss (state b') = PosInf"
proof -
  let ?a = "example_trainer default_config 0 scenario_train scenario_val"
  let ?b = "example_trainer default_config 1 scenario_train scenario_val"
  have g: "genuine ?a" "grad_accum_steps (config ?a) \<noteq> 0" "genuine ?b" "grad_accum_steps (config ?b) \<noteq> 0"
    "validation_freq default_config \<noteq> 0" "checkpoint_freq default_config \<noteq> 0"
    by (simp_all add: genuine_def example_trainer_def default_config_def)
  from train_loop_total [OF g(1,2,5,6)] obtain a' where
    a: "train_loop default_config ?a (py_range 0 2) = Inr a'" by blast
  from train_loop_total [OF g(3,4,5,6)] obtain b' where
    b: "train_loop default_config ?b (py_range 0 2) = Inr b'" by blast
  have h: "config ?a = config ?b" "train_loader ?a = train_loader ?b" "val_loader ?a = val_loader ?b"
    "world_size ?a = world_size ?b" "state ?a = state ?b"
    by (simp_all add: example_trainer_def)
  have nm: "\<not> is_main ?b" "best_loss (state ?b) = PosInf"
    by (simp_all add: example_trainer_def initial_state_def)
  from control_plane_determinism [OF a b h] nm
  have "epoch (state a') = epoch (state b') \<and> global_step (state a') = global_step (state b') \<and>
     best_loss (state b') = PosInf" by simp
  with a b show ?thesis by blast
qed

subsection \<open>C10: the frame of validation\<close>

text \<open>
  C10. A completed \<^verbatim>\<open>validate\<close> leaves \<^verbatim>\<open>epoch\<close> and \<^verbatim>\<open>global_step\<close> unchanged, and
  everything of the trainer but its state and its trace; \<^verbatim>\<open>best_loss\<close> is the only
  field of the state it can change. When the validation data source is empty it returns
  the trainer as it is: nothing is reduced, compared, saved or divided.
\<close>

theorem validate_frame:
  "(\<forall>t'. validate t = Inr t' \<longrightarrow>
      epoch (state t') = epoch (state t) \<and> global_step (state t') = global_step (state t) \<and>
      same_setup t t') \<and>
   (val_loader t (epoch (state t)) = [] \<longrightarrow> validate t = Inr t) \<and>
   (genuine t \<or> \<not> is_main t \<longrightarrow> (\<exists>t'. validate t = Inr t'))"
proof (intro conjI allI impI)
  fix t' assume "validate t = Inr t'"
  from validate_Inr [OF this]
  show "epoch (state t') = epoch (state t)" "global_step (state t') = global_step (state t)"
    "same_setup t t'" by simp_all
next
  assume "val_loader t (epoch (state t)) = []"
  then show "validate t = Inr t" by (simp add: validate_def)
next
  assume "genuine t \<or> \<not> is_main t"
  then show "\<exists>t'. validate t = Inr t'" by (rule validate_total)
qed

theorem validate_frame_witness:
  "validate (example_trainer default_config 0 scenario_train []) =
     Inr (example_trainer default_config 0 scenario_train []) \<and>
   (\<exists>t'. validate (example_trainer default_config 0 scenario_train scenario_val) = Inr t' \<and>
         epoch (state t') = 0 \<and> global_step (state t') = 0)"
proof -
  let ?t = "example_trainer default_config 0 scenario_train []"
  let ?u = "example_trainer default_config 0 scenario_train scenario_val"
  have e: "val_loader ?t (epoch (state ?t)) = []" by (simp add: example_trainer_def)
  have g: "genuine ?u \<or> \<not> is_main ?u" by (simp add: genuine_def example_trainer_def)
  from validate_frame [of ?t] e have "validate ?t = Inr ?t" by blast
  moreover from validate_frame [of ?u] g
  have "\<exists>t'. validate ?u = Inr t' \<and> epoch (state t') = epoch (state ?u) \<and>
          global_step (state t') = global_step (state ?u)" by blast
  ultimately show ?thesis by (simp add: example_trainer_def initial_state_def)
qed

end
